theory Spec2Isabelle
  imports Main "HOL-Library.Sublist" "HOL-Library.Multiset"
begin

section \<open>Python values and exceptions\<close>

text \<open>
  The generator is written in Python. A value that the code reads as a string but that the
  C front-end may leave as \<open>None\<close> (the name of an abstract declarator, the tag of an
  anonymous struct) is a \<open>string option\<close>; every \<open>raise\<close> of the source, and every
  exception the interpreter raises on such a value, is an \<open>Inl\<close> result.
\<close>

datatype py_exc =
    PyException                \<comment> \<open>\<open>raise Exception(...)\<close>\<close>
  | EllipsisParamException     \<comment> \<open>the nested subclass of \<open>NotImplementedError\<close>\<close>
  | PyTypeError                \<comment> \<open>\<open>raise TypeError(...)\<close>, \<open>str + None\<close>, iterating \<open>None\<close>\<close>
  | PyIndexError               \<comment> \<open>\<open>names[0]\<close> on an empty list\<close>
  | PyAttributeError           \<comment> \<open>reading an attribute the node class does not have\<close>
  | PyValueError               \<comment> \<open>\<open>int\<close> on a string of too many digits\<close>

text \<open>What \<open>except NotImplementedError\<close> catches.\<close>

fun is_NotImplementedError :: "py_exc \<Rightarrow> bool" where
  "is_NotImplementedError EllipsisParamException = True"
| "is_NotImplementedError _ = False"

text \<open>\<open>sep.join(xs)\<close> on a list of strings.\<close>

fun join :: "string \<Rightarrow> string list \<Rightarrow> string" where
  "join sep [] = []"
| "join sep [x] = x"
| "join sep (x # y # ys) = x @ sep @ join sep (y # ys)"

text \<open>The loops \<open>for i in range(n): s += t\<close>.\<close>

primrec append_n :: "string \<Rightarrow> nat \<Rightarrow> string \<Rightarrow> string" where
  "append_n s 0 t = s"
| "append_n s (Suc k) t = append_n (s @ t) k t"

section \<open>The declaration model: classes \<open>c_obj_decl\<close> and \<open>c_func_obj_decl\<close>\<close>

text \<open>
  \<open>c_func_obj_decl\<close> is a subclass of \<open>c_obj_decl\<close> whose \<open>params\<close> are again
  objects of either class, so the two classes are the two constructors of one datatype; the
  inherited attributes are shared selectors. The constructor of the subclass passes
  \<open>align = ""\<close> to its base class; \<open>" ".join("")\<close> is the empty string, as for
  the empty list.
\<close>

datatype c_obj =
    C_obj_decl
      (name: "string option") (quals: "string list") (align: "string list")
      (storage: "string list") (type: string) (array_layers: nat) (pointer_layers: nat)
  | C_func_obj_decl
      (name: "string option") (quals: "string list") (align: "string list")
      (storage: "string list") (type: string) (array_layers: nat) (pointer_layers: nat)
      (funcspec: "string list") (return_type: string) (params: "c_obj list")

definition c_obj_decl_init ::
  "string option \<Rightarrow> string list \<Rightarrow> string list \<Rightarrow> string list \<Rightarrow> string \<Rightarrow> nat \<Rightarrow> nat \<Rightarrow> c_obj" where
  "c_obj_decl_init nm qs al st real_type arrays pointers =
     C_obj_decl nm qs al st real_type arrays pointers"

definition c_func_obj_decl_init ::
  "string option \<Rightarrow> string list \<Rightarrow> string list \<Rightarrow> string list \<Rightarrow> string \<Rightarrow> nat \<Rightarrow> nat \<Rightarrow>
   c_obj list \<Rightarrow> c_obj" where
  "c_func_obj_decl_init nm qs storge fs ret_type arrays pointers ps =
     C_func_obj_decl nm qs [] storge ret_type arrays pointers fs ret_type ps"

text \<open>Assignment to the attribute \<open>name\<close>.\<close>

fun set_name :: "c_obj \<Rightarrow> string option \<Rightarrow> c_obj" where
  "set_name (C_obj_decl _ qs al st ty a p) nm = C_obj_decl nm qs al st ty a p"
| "set_name (C_func_obj_decl _ qs al st ty a p fs rt ps) nm =
     C_func_obj_decl nm qs al st ty a p fs rt ps"

definition type_to_str :: "c_obj \<Rightarrow> bool \<Rightarrow> string" where
  "type_to_str d space =
     (if pointer_layers d \<noteq> 0
      then append_n (if space then type d @ '' '' else type d) (pointer_layers d) ''*''
      else type d)"

definition quals_to_str :: "c_obj \<Rightarrow> string" where
  "quals_to_str d = join '' '' (quals d)"

definition align_to_str :: "c_obj \<Rightarrow> string" where
  "align_to_str d = join '' '' (align d)"

definition storage_to_str :: "c_obj \<Rightarrow> string" where
  "storage_to_str d = join '' '' (storage d)"

text \<open>
  \<open>name += "[]"\<close> raises \<open>TypeError\<close> on \<open>None\<close>; with no array layer the loop body
  never runs and the name, \<open>None\<close> included, is returned as it is.
\<close>

primrec add_brackets :: "string option \<Rightarrow> nat \<Rightarrow> py_exc + string option" where
  "add_brackets nm 0 = Inr nm"
| "add_brackets nm (Suc k) =
     (case nm of None \<Rightarrow> Inl PyTypeError | Some s \<Rightarrow> add_brackets (Some (s @ ''[]'')) k)"

definition name_to_str :: "c_obj \<Rightarrow> bool \<Rightarrow> py_exc + string option" where
  "name_to_str d with_array =
     (if with_array then add_brackets (name d) (array_layers d) else Inr (name d))"

text \<open>\<open>s + v\<close> for a string \<open>s\<close> and the result \<open>v\<close> of \<open>name_to_str\<close>.\<close>

fun str_add :: "string \<Rightarrow> py_exc + string option \<Rightarrow> py_exc + string" where
  "str_add s (Inl e) = Inl e"
| "str_add s (Inr None) = Inl PyTypeError"
| "str_add s (Inr (Some t)) = Inr (s @ t)"

text \<open>\<open>c_obj_decl.to_str(semicolon, with_array)\<close>.\<close>

definition obj_to_str :: "c_obj \<Rightarrow> bool \<Rightarrow> bool \<Rightarrow> py_exc + string" where
  "obj_to_str d semicolon with_array =
     (let decl = '''';
          decl = (if quals_to_str d \<noteq> [] then decl @ quals_to_str d @ '' '' else decl);
          decl = (if align_to_str d \<noteq> [] then decl @ align_to_str d @ '' '' else decl);
          decl = (if storage_to_str d \<noteq> [] then decl @ storage_to_str d @ '' '' else decl)
      in case (if type_to_str d True \<noteq> ''void''
               then str_add (decl @ type_to_str d True @ '' '') (name_to_str d with_array)
               else Inr (decl @ type_to_str d True)) of
           Inl e \<Rightarrow> Inl e
         | Inr decl \<Rightarrow> Inr (if semicolon then decl @ '';'' else decl))"

definition funcspec_to_str :: "c_obj \<Rightarrow> string" where
  "funcspec_to_str d = join '' '' (funcspec d)"

text \<open>
  \<open>params_to_str\<close> calls \<open>param.to_str(semicolon = False, with_array = True)\<close> on each
  parameter. A parameter that is itself a \<open>c_func_obj_decl\<close> has the overriding
  \<open>to_str(semicolon)\<close>, which does not take \<open>with_array\<close>: the call raises
  \<open>TypeError\<close>.
\<close>

fun param_to_str :: "c_obj \<Rightarrow> py_exc + string" where
  "param_to_str (C_func_obj_decl _ _ _ _ _ _ _ _ _ _) = Inl PyTypeError"
| "param_to_str d = obj_to_str d False True"

fun params_loop :: "c_obj list \<Rightarrow> string list \<Rightarrow> py_exc + string list" where
  "params_loop [] acc = Inr acc"
| "params_loop (p # ps) acc =
     (case param_to_str p of Inl e \<Rightarrow> Inl e | Inr s \<Rightarrow> params_loop ps (acc @ [s]))"

definition params_to_str :: "c_obj \<Rightarrow> py_exc + string" where
  "params_to_str f =
     (case params_loop (params f) [] of Inl e \<Rightarrow> Inl e | Inr ss \<Rightarrow> Inr (join '', '' ss))"

text \<open>\<open>c_func_obj_decl.to_str(semicolon)\<close>.\<close>

definition func_to_str :: "c_obj \<Rightarrow> bool \<Rightarrow> py_exc + string" where
  "func_to_str f semicolon =
     (let decl = '''';
          decl = (if quals_to_str f \<noteq> [] then quals_to_str f @ '' '' else decl);
          decl = (if storage_to_str f \<noteq> [] then decl @ storage_to_str f @ '' '' else decl);
          decl = (if funcspec_to_str f \<noteq> [] then decl @ funcspec_to_str f @ '' '' else decl)
      in case str_add (decl @ type_to_str f True @ '' '') (name_to_str f True) of
           Inl e \<Rightarrow> Inl e
         | Inr decl \<Rightarrow>
             (case params_to_str f of
                Inl e \<Rightarrow> Inl e
              | Inr ps \<Rightarrow>
                  (let decl = decl @ ''('' @ ps @ '')''
                   in Inr (if semicolon then decl @ '';'' else decl))))"

text \<open>
  \<open>gen_func_call\<close>: the loop over \<open>range(param_nums)\<close>; the test
  \<open>i < param_nums - 1\<close> holds exactly for the parameters that are not the last one.
\<close>

fun func_param_loop :: "c_obj list \<Rightarrow> string \<Rightarrow> py_exc + string" where
  "func_param_loop [] func_param = Inr func_param"
| "func_param_loop [p] func_param =
     (if type_to_str p True \<noteq> ''void''
      then (case name p of None \<Rightarrow> Inl PyTypeError | Some n \<Rightarrow> Inr (func_param @ n))
      else Inr func_param)"
| "func_param_loop (p # q # ps) func_param =
     (if type_to_str p True \<noteq> ''void''
      then (case name p of
              None \<Rightarrow> Inl PyTypeError
            | Some n \<Rightarrow> func_param_loop (q # ps) (func_param @ n @ '', ''))
      else func_param_loop (q # ps) func_param)"

text \<open>
  \<open>gen_func_call\<close> is a method of \<open>c_func_obj_decl\<close> only; calling it on an object of
  the base class raises \<open>AttributeError\<close>.
\<close>

fun gen_func_call :: "c_obj \<Rightarrow> py_exc + string" where
  "gen_func_call (C_func_obj_decl nm qs al st ty a p fs rt ps) =
     (case func_param_loop ps [] of
        Inl e \<Rightarrow> Inl e
      | Inr func_param \<Rightarrow>
          (case nm of
             None \<Rightarrow> Inl PyTypeError
           | Some n \<Rightarrow>
               (if type_to_str (C_func_obj_decl nm qs al st ty a p fs rt ps) True \<noteq> ''void''
                then Inr (type_to_str (C_func_obj_decl nm qs al st ty a p fs rt ps) True
                          @ '' ret = '' @ n @ ''('' @ func_param @ '');'')
                else Inr (n @ ''('' @ func_param @ '');''))))"
| "gen_func_call (C_obj_decl _ _ _ _ _ _ _) = Inl PyAttributeError"

text \<open>
  The positional call \<open>x.to_str(semicolon)\<close>, dispatched on the class of \<open>x\<close>; in the
  base class \<open>with_array\<close> then takes its default \<open>False\<close>.
\<close>

fun to_str :: "c_obj \<Rightarrow> bool \<Rightarrow> py_exc + string" where
  "to_str (C_obj_decl nm qs al st ty a p) semicolon =
     obj_to_str (C_obj_decl nm qs al st ty a p) semicolon False"
| "to_str (C_func_obj_decl nm qs al st ty a p fs rt ps) semicolon =
     func_to_str (C_func_obj_decl nm qs al st ty a p fs rt ps) semicolon"

section \<open>Text substitution\<close>

text \<open>
  \<open>s.replace(old, new)\<close>: every non-overlapping occurrence of \<open>old\<close>, scanning from
  the left. With an empty \<open>old\<close> Python inserts \<open>new\<close> before every character and at
  the end.
\<close>

function replace_loop :: "string \<Rightarrow> string \<Rightarrow> string \<Rightarrow> string" where
  "replace_loop [] old new = []"
| "replace_loop (c # cs) old new =
     (if old \<noteq> [] \<and> prefix old (c # cs)
      then new @ replace_loop (drop (length old) (c # cs)) old new
      else c # replace_loop cs old new)"
  by pat_completeness auto
termination
  by (relation "measure (\<lambda>(s, old, new). length s)") auto

definition replace :: "string \<Rightarrow> string \<Rightarrow> string \<Rightarrow> string" where
  "replace s old new =
     (if old = [] then new @ concat (map (\<lambda>c. c # new) s) else replace_loop s old new)"

section \<open>The generator object\<close>

text \<open>
  A compiled pattern is represented by the relation between a text it matches and the text
  that follows it: \<open>p m r\<close> holds when the pattern, applied at the first character of the
  string \<open>m @ r\<close>, matches exactly the characters \<open>m\<close> (what follows matters to
  constructs such as \<open>$\<close> or a lookahead). \<open>default_block_pattern\<close> is
  \<open>re.compile(r"^(_lv){1}", re.X)\<close>: at the start of the string, the three characters
  \<open>_lv\<close>, whatever follows.
\<close>

type_synonym pattern = "string \<Rightarrow> string \<Rightarrow> bool"

definition default_block_pattern :: pattern where
  "default_block_pattern m r = (m = ''_lv'')"

text \<open>
  \<open>Pattern.match(string)\<close> of the \<open>re\<close> library: a match object if zero or more
  characters at the beginning of the string match the pattern, \<open>None\<close> otherwise. The
  generator only tests the result for truth, and a match object is always true.
\<close>

definition re_match :: "pattern \<Rightarrow> string \<Rightarrow> bool" where
  "re_match p s = list_ex (\<lambda>k. p (take k s) (drop k s)) [0..<Suc (length s)]"

datatype log_record = LogInfo string | LogWarning string

record generator =
  lvgl_version_major :: int
  lvgl_version_minor :: int
  lvgl_version_patch :: int
  logger :: "log_record list"
  blacklist_func_patterns :: "pattern list"
  template_func_decl :: string
  template_func_def :: string
  func_list :: "c_obj list"

definition load_default_block_strategy :: "generator \<Rightarrow> generator" where
  "load_default_block_strategy g = g\<lparr>blacklist_func_patterns := [default_block_pattern]\<rparr>"

definition add_blacklist_func_pattern :: "generator \<Rightarrow> pattern \<Rightarrow> generator" where
  "add_blacklist_func_pattern g func_pattern =
     g\<lparr>blacklist_func_patterns := blacklist_func_patterns g @ [func_pattern]\<rparr>"

text \<open>
  The state of a generator right after its constructor, for the two function templates read
  from their files.
\<close>

definition generator_init :: "string \<Rightarrow> string \<Rightarrow> generator" where
  "generator_init tmpl_decl tmpl_def =
     load_default_block_strategy
       \<lparr>lvgl_version_major = 0, lvgl_version_minor = 0, lvgl_version_patch = 0,
        logger = [], blacklist_func_patterns = [],
        template_func_decl = tmpl_decl, template_func_def = tmpl_def, func_list = []\<rparr>"

section \<open>Wrapper text: \<open>__gen_func_def__\<close> and \<open>__gen_func_decl__\<close>\<close>

text \<open>
  Function objects are mutable and passed by reference, so the two emitters work on an
  object store: a list of objects, an object's reference being its index.
  \<open>copy.deepcopy\<close> allocates a new object with the same contents (the parameters are part
  of the object's value here, so they are copied with it); assigning to \<open>name\<close>
  updates the object a reference points to.
\<close>

definition deepcopy :: "c_obj list \<Rightarrow> nat \<Rightarrow> nat \<times> c_obj list" where
  "deepcopy h r = (length h, h @ [h ! r])"

definition assign_name :: "c_obj list \<Rightarrow> nat \<Rightarrow> string option \<Rightarrow> c_obj list" where
  "assign_name h r nm = h[r := set_name (h ! r) nm]"

text \<open>
  The body shared by the two emitters, which differ in the template only. The first
  statement builds the debug message \<open>"Generating function " + function.name + ...\<close>, which
  raises on a \<open>None\<close> name whatever the log level. The value of the closing call of
  \<open>__replace_variables__\<close> is dropped by the source, so the call has no effect on the
  result.
\<close>

definition gen_func_text ::
  "string \<Rightarrow> c_obj list \<Rightarrow> nat \<Rightarrow> (py_exc + string) \<times> c_obj list" where
  "gen_func_text template h function =
     (case name (h ! function) of
        None \<Rightarrow> (Inl PyTypeError, h)
      | Some _ \<Rightarrow>
          (let func_def = template;
               (safe_func_decl, h) = deepcopy h function
           in case name (h ! function) of
                None \<Rightarrow> (Inl PyTypeError, h)
              | Some fname \<Rightarrow>
                  (let h = assign_name h safe_func_decl (Some (''safe_'' @ fname))
                   in case to_str (h ! safe_func_decl) False of
                        Inl e \<Rightarrow> (Inl e, h)
                      | Inr decl \<Rightarrow>
                          (let func_def = replace func_def ''${func_decl}'' decl
                           in case gen_func_call (h ! function) of
                                Inl e \<Rightarrow> (Inl e, h)
                              | Inr call \<Rightarrow>
                                  (let func_def = replace func_def ''${func_call}'' call;
                                       func_def =
                                         (if type (h ! function) \<noteq> ''void''
                                          then replace func_def ''${func_ret}'' ''return ret;''
                                          else replace func_def ''${func_ret}'' '''');
                                       func_def = replace func_def ''${func_comms}'' ''''
                                   in (Inr func_def, h))))))"

definition gen_func_def ::
  "generator \<Rightarrow> c_obj list \<Rightarrow> nat \<Rightarrow> (py_exc + string) \<times> c_obj list" where
  "gen_func_def g h function = gen_func_text (template_func_def g) h function"

definition gen_func_decl ::
  "generator \<Rightarrow> c_obj list \<Rightarrow> nat \<Rightarrow> (py_exc + string) \<times> c_obj list" where
  "gen_func_decl g h function = gen_func_text (template_func_decl g) h function"

section \<open>The syntax tree handed over by the C front-end\<close>

text \<open>
  The node classes of \<open>pycparser.c_ast\<close> that the generator inspects, each with the
  attributes the generator reads. A \<open>name\<close> is \<open>None\<close> for an abstract declarator or
  an anonymous tag; the \<open>args\<close> of a \<open>FuncDecl\<close> are \<open>None\<close> for an empty
  parameter list \<open>()\<close>, and iterating a \<open>ParamList\<close> yields its parameters.
  \<open>OtherNode\<close> stands for every other node class (\<open>Typedef\<close>, \<open>Alignas\<close>, ...).
\<close>

datatype node =
    Decl "string option" "string list" "node list" "string list" "string list" node
      \<comment> \<open>\<open>name\<close>, \<open>quals\<close>, \<open>align\<close>, \<open>storage\<close>, \<open>funcspec\<close>, \<open>type\<close>\<close>
  | Typename "string option" "string list" node
      \<comment> \<open>\<open>name\<close>, \<open>quals\<close>, \<open>type\<close>\<close>
  | TypeDecl node
  | PtrDecl node
  | ArrayDecl node
  | FuncDecl "node list option" node
      \<comment> \<open>\<open>args\<close>, \<open>type\<close>\<close>
  | IdentifierType "string list"
  | Struct "string option"
  | Union "string option"
  | Enum "string option"
  | EllipsisParam
  | FuncDef node
      \<comment> \<open>\<open>decl\<close>\<close>
  | OtherNode

text \<open>
  The attribute \<open>name\<close> of a node; the other classes listed here do not have one. The
  front-end only hands a \<open>Decl\<close> to \<open>__add_lvgl_func__\<close>.
\<close>

fun node_name :: "node \<Rightarrow> py_exc + string option" where
  "node_name (Decl nm _ _ _ _ _) = Inr nm"
| "node_name (Typename nm _ _) = Inr nm"
| "node_name (Struct nm) = Inr nm"
| "node_name (Union nm) = Inr nm"
| "node_name (Enum nm) = Inr nm"
| "node_name _ = Inl PyAttributeError"

section \<open>Resolving a declarator: \<open>__get_nesting_type__\<close>\<close>

text \<open>The two \<open>while\<close> loops that count and strip array layers, then pointer layers.\<close>

fun strip_arrays :: "node \<Rightarrow> nat \<Rightarrow> node \<times> nat" where
  "strip_arrays (ArrayDecl t) n = strip_arrays t (Suc n)"
| "strip_arrays child n = (child, n)"

fun strip_pointers :: "node \<Rightarrow> nat \<Rightarrow> node \<times> nat" where
  "strip_pointers (PtrDecl t) n = strip_pointers t (Suc n)"
| "strip_pointers child n = (child, n)"

text \<open>The result is the list \<open>[c_obj_type, c_obj_array_layers, c_obj_pointer_layers]\<close>.\<close>

definition get_nesting_type :: "node \<Rightarrow> py_exc + (string \<times> nat \<times> nat)" where
  "get_nesting_type nd =
     (let (child_node, c_obj_array_layers) = strip_arrays nd 0;
          (child_node, c_obj_pointer_layers) = strip_pointers child_node 0;
          child_node = (case child_node of Typename _ _ t \<Rightarrow> t | _ \<Rightarrow> child_node)
      in case child_node of
           TypeDecl parent_type \<Rightarrow>
             (case parent_type of
                Struct tag \<Rightarrow>
                  (case tag of
                     None \<Rightarrow> Inl PyTypeError
                   | Some s \<Rightarrow> Inr (''struct '' @ s, c_obj_array_layers, c_obj_pointer_layers))
              | IdentifierType names \<Rightarrow>
                  (case names of
                     [] \<Rightarrow> Inl PyIndexError
                   | n # _ \<Rightarrow> Inr (n, c_obj_array_layers, c_obj_pointer_layers))
              | _ \<Rightarrow> Inl PyException)
         | _ \<Rightarrow> Inl PyException)"

section \<open>Converting a declaration: \<open>c_decl_to_c_obj\<close>\<close>

text \<open>
  The branches are in the order of the source's \<open>isinstance\<close> chain. A \<open>Decl\<close> with an
  alignment raises before its type is looked at; in the \<open>Typename\<close> branch of a
  \<open>Decl\<close> the type is resolved and then \<open>Exception("TODO.")\<close> is raised.
  \<open>convert_params\<close> is the loop \<open>for param in node.type.args\<close>, which stops at the
  first parameter whose conversion raises.
\<close>

fun c_decl_to_c_obj :: "node \<Rightarrow> py_exc + c_obj"
  and convert_params :: "node list \<Rightarrow> c_obj list \<Rightarrow> py_exc + c_obj list" where
  "c_decl_to_c_obj (Decl nm qs al st fs ty) =
     (if length al > 0 then Inl PyException
      else
        (case ty of
           ArrayDecl _ \<Rightarrow>
             (case get_nesting_type ty of
                Inl e \<Rightarrow> Inl e
              | Inr (t, a, p) \<Rightarrow> Inr (c_obj_decl_init nm qs [] st t a p))
         | Decl _ _ _ _ _ _ \<Rightarrow> Inl PyException
         | Enum tag \<Rightarrow>
             (case tag of
                None \<Rightarrow> Inl PyTypeError
              | Some s \<Rightarrow> Inr (c_obj_decl_init nm qs [] st (''enum '' @ s) 0 0))
         | FuncDecl args rt \<Rightarrow>
             (case args of
                None \<Rightarrow> Inl PyTypeError
              | Some ps \<Rightarrow>
                  (case convert_params ps [] of
                     Inl e \<Rightarrow> Inl e
                   | Inr c_obj_params \<Rightarrow>
                       (case get_nesting_type rt of
                          Inl e \<Rightarrow> Inl e
                        | Inr (t, a, p) \<Rightarrow>
                            Inr (c_func_obj_decl_init nm qs st fs t a p c_obj_params))))
         | PtrDecl _ \<Rightarrow>
             (case get_nesting_type ty of
                Inl e \<Rightarrow> Inl e
              | Inr (t, a, p) \<Rightarrow> Inr (c_obj_decl_init nm qs [] st t a p))
         | TypeDecl _ \<Rightarrow>
             (case get_nesting_type ty of
                Inl e \<Rightarrow> Inl e
              | Inr (t, a, p) \<Rightarrow> Inr (c_obj_decl_init nm qs [] st t a p))
         | Typename _ _ t \<Rightarrow>
             (case get_nesting_type t of
                Inl e \<Rightarrow> Inl e
              | Inr _ \<Rightarrow> Inl PyException)
         | _ \<Rightarrow> Inl PyException))"
| "c_decl_to_c_obj (TypeDecl t) =
     (case get_nesting_type (TypeDecl t) of
        Inl e \<Rightarrow> Inl e
      | Inr (t, a, p) \<Rightarrow> Inr (c_obj_decl_init (Some '''') [] [] [] t a p))"
| "c_decl_to_c_obj (Typename nm qs ty) =
     (case ty of
        TypeDecl _ \<Rightarrow>
          (case get_nesting_type (Typename nm qs ty) of
             Inl e \<Rightarrow> Inl e
           | Inr (t, a, p) \<Rightarrow> Inr (c_obj_decl_init nm qs [] [] t a p))
      | _ \<Rightarrow> Inl PyException)"
| "c_decl_to_c_obj EllipsisParam = Inl EllipsisParamException"
| "c_decl_to_c_obj _ = Inl PyTypeError"
| "convert_params [] c_obj_params = Inr c_obj_params"
| "convert_params (param # ps) c_obj_params =
     (case c_decl_to_c_obj param of
        Inl e \<Rightarrow> Inl e
      | Inr obj \<Rightarrow> convert_params ps (c_obj_params @ [obj]))"

section \<open>Collecting functions: \<open>__add_lvgl_func__\<close> and \<open>__parse_header__\<close>\<close>

text \<open>
  The loop over the blacklist patterns; \<open>match\<close> raises \<open>TypeError\<close> on \<open>None\<close>. The
  result \<open>True\<close> is the early \<open>return False\<close> of the source after its informational log.
\<close>

fun in_blacklist :: "pattern list \<Rightarrow> string option \<Rightarrow> py_exc + bool" where
  "in_blacklist [] func_name = Inr False"
| "in_blacklist (func_pattern # ps) func_name =
     (case func_name of
        None \<Rightarrow> Inl PyTypeError
      | Some n \<Rightarrow> (if re_match func_pattern n then Inr True else in_blacklist ps func_name))"

text \<open>The loop \<open>for func in self.__func_list__: if func_name == func.name\<close>.\<close>

fun in_func_list :: "c_obj list \<Rightarrow> string option \<Rightarrow> bool" where
  "in_func_list [] func_name = False"
| "in_func_list (func # fs) func_name =
     (if func_name = name func then True else in_func_list fs func_name)"

text \<open>\<open>"Function {} is in blacklist.".format(func_name)\<close>; \<open>None\<close> is formatted as its name.\<close>

definition blacklist_message :: "string option \<Rightarrow> string" where
  "blacklist_message func_name =
     ''Function '' @ (case func_name of None \<Rightarrow> ''None'' | Some n \<Rightarrow> n) @ '' is in blacklist.''"

text \<open>
  The warning of the \<open>except NotImplementedError\<close> handler; the only exception of that
  class the conversion raises is \<open>EllipsisParamException\<close>, whose text is fixed.
\<close>

definition parse_error_message :: "string \<Rightarrow> string" where
  "parse_error_message func_name =
     ''Parse function error: '' @ func_name
       @ '' error: EllipsisParam is not supported temporarily.''"

text \<open>
  \<open>__add_lvgl_func__\<close> returns its boolean and the updated generator, or the exception
  that leaves it. Only \<open>NotImplementedError\<close> is caught around the conversion.
\<close>

definition add_lvgl_func :: "generator \<Rightarrow> node \<Rightarrow> (py_exc + bool) \<times> generator" where
  "add_lvgl_func g func_node =
     (case node_name func_node of
        Inl e \<Rightarrow> (Inl e, g)
      | Inr func_name \<Rightarrow>
          (case in_blacklist (blacklist_func_patterns g) func_name of
             Inl e \<Rightarrow> (Inl e, g)
           | Inr True \<Rightarrow>
               (Inr False, g\<lparr>logger := logger g @ [LogInfo (blacklist_message func_name)]\<rparr>)
           | Inr False \<Rightarrow>
               (if in_func_list (func_list g) func_name then (Inr False, g)
                else
                  (case c_decl_to_c_obj func_node of
                     Inr func \<Rightarrow> (Inr True, g\<lparr>func_list := func_list g @ [func]\<rparr>)
                   | Inl e \<Rightarrow>
                       (if is_NotImplementedError e
                        then (case func_name of
                                None \<Rightarrow> (Inl PyTypeError, g)
                              | Some n \<Rightarrow>
                                  (Inr False,
                                   g\<lparr>logger := logger g @ [LogWarning (parse_error_message n)]\<rparr>))
                        else (Inl e, g))))))"

text \<open>
  The two admissible shapes of a top-level node in \<open>__parse_header__\<close>, with the node
  that is passed on to \<open>__add_lvgl_func__\<close>: the \<open>decl\<close> of a \<open>FuncDef\<close>, or a
  \<open>Decl\<close> whose type is a \<open>FuncDecl\<close>. Every other node is passed over.
\<close>

fun func_node_of :: "node \<Rightarrow> node option" where
  "func_node_of (FuncDef decl) = Some decl"
| "func_node_of (Decl nm qs al st fs (FuncDecl args rt)) =
     Some (Decl nm qs al st fs (FuncDecl args rt))"
| "func_node_of _ = None"

text \<open>
  The loop of \<open>__parse_header__\<close> over the top-level nodes \<open>ast.ext\<close> that the front-end
  returned; the first component is the exception that ended the loop, if any.
\<close>

fun parse_nodes :: "generator \<Rightarrow> node list \<Rightarrow> py_exc option \<times> generator" where
  "parse_nodes g [] = (None, g)"
| "parse_nodes g (nd # nodes) =
     (case func_node_of nd of
        None \<Rightarrow> parse_nodes g nodes
      | Some func_node \<Rightarrow>
          (case add_lvgl_func g func_node of
             (Inl e, g') \<Rightarrow> (Some e, g')
           | (Inr _, g') \<Rightarrow> parse_nodes g' nodes))"

definition parse_header :: "generator \<Rightarrow> node list \<Rightarrow> (py_exc + nat) \<times> generator" where
  "parse_header g ast =
     (case parse_nodes g ast of
        (Some e, g') \<Rightarrow> (Inl e, g')
      | (None, g') \<Rightarrow> (Inr (length (func_list g')), g'))"

section \<open>The version scan: \<open>get_lvgl_version\<close>\<close>

text \<open>
  The three patterns are
  \<open>^(\#define){1}[ ]+(LVGL_VERSION_MAJOR){1}[ ]+(?P<major_version>[0-9]+)\<close> and its two
  siblings, applied with \<open>match\<close>: the text \<open>#define\<close> at the start of the line, one or
  more blanks, the macro name, one or more blanks, one or more decimal digits; whatever
  follows the digits is not looked at. Each repetition is greedy and is followed by a
  character outside its class, so the captured group is the longest run of digits.
  \<open>match_define\<close> returns that group.
\<close>

definition strip_prefix :: "string \<Rightarrow> string \<Rightarrow> string option" where
  "strip_prefix p s = (if prefix p s then Some (drop (length p) s) else None)"

definition skip_blanks :: "string \<Rightarrow> string option" where
  "skip_blanks s =
     (if takeWhile (\<lambda>c. c = CHR '' '') s = [] then None
      else Some (dropWhile (\<lambda>c. c = CHR '' '') s))"

definition is_digit :: "char \<Rightarrow> bool" where
  "is_digit c = (c \<in> set ''0123456789'')"

definition match_define :: "string \<Rightarrow> string \<Rightarrow> string option" where
  "match_define macro line =
     (case strip_prefix ''#define'' line of
        None \<Rightarrow> None
      | Some r1 \<Rightarrow>
          (case skip_blanks r1 of
             None \<Rightarrow> None
           | Some r2 \<Rightarrow>
               (case strip_prefix macro r2 of
                  None \<Rightarrow> None
                | Some r3 \<Rightarrow>
                    (case skip_blanks r3 of
                       None \<Rightarrow> None
                     | Some r4 \<Rightarrow>
                         (if takeWhile is_digit r4 = [] then None
                          else Some (takeWhile is_digit r4))))))"

text \<open>
  \<open>int(s)\<close> on a non-empty string of decimal digits. CPython refuses to convert a string
  of more than 4300 digits, the default of its limit on integer string conversion, and raises
  \<open>ValueError\<close>.
\<close>

definition digit_value :: "char \<Rightarrow> int" where
  "digit_value c = int (of_char c) - 48"

definition digits_value :: "string \<Rightarrow> int" where
  "digits_value s = foldl (\<lambda>a c. 10 * a + digit_value c) 0 s"

definition int_max_str_digits :: nat where
  "int_max_str_digits = 4300"

definition py_int :: "string \<Rightarrow> py_exc + int" where
  "py_int s = (if int_max_str_digits < length s then Inl PyValueError else Inr (digits_value s))"

text \<open>\<open>line.replace('\r','').replace('\n','')\<close>.\<close>

definition strip_line :: "string \<Rightarrow> string" where
  "strip_line raw_line = replace (replace raw_line [CHR 0x0D] []) [CHR 0x0A] []"

text \<open>
  One round of the \<open>while\<close> loop: the line is stripped of carriage returns and line feeds,
  then each field that is still zero is matched and, on a match, assigned the integer of the
  captured digits. The result is the exception that \<open>int\<close> raised, if any, and the
  generator as it is at that point.
\<close>

definition scan_line :: "generator \<Rightarrow> string \<Rightarrow> py_exc option \<times> generator" where
  "scan_line g raw_line =
     (let line = strip_line raw_line;
          (e, g) =
            (if lvgl_version_major g = 0
             then (case match_define ''LVGL_VERSION_MAJOR'' line of
                     None \<Rightarrow> (None, g)
                   | Some ds \<Rightarrow>
                       (case py_int ds of
                          Inl x \<Rightarrow> (Some x, g)
                        | Inr v \<Rightarrow> (None, g\<lparr>lvgl_version_major := v\<rparr>)))
             else (None, g))
      in case e of
           Some x \<Rightarrow> (Some x, g)
         | None \<Rightarrow>
             (let (e, g) =
                    (if lvgl_version_minor g = 0
                     then (case match_define ''LVGL_VERSION_MINOR'' line of
                             None \<Rightarrow> (None, g)
                           | Some ds \<Rightarrow>
                               (case py_int ds of
                                  Inl x \<Rightarrow> (Some x, g)
                                | Inr v \<Rightarrow> (None, g\<lparr>lvgl_version_minor := v\<rparr>)))
                     else (None, g))
              in case e of
                   Some x \<Rightarrow> (Some x, g)
                 | None \<Rightarrow>
                     (if lvgl_version_patch g = 0
                      then (case match_define ''LVGL_VERSION_PATCH'' line of
                              None \<Rightarrow> (None, g)
                            | Some ds \<Rightarrow>
                                (case py_int ds of
                                   Inl x \<Rightarrow> (Some x, g)
                                 | Inr v \<Rightarrow> (None, g\<lparr>lvgl_version_patch := v\<rparr>)))
                      else (None, g))))"

text \<open>
  The file is given as the strings that the successive calls of \<open>readline\<close> return before
  the end of the file. \<open>while(line)\<close> leaves the loop at an empty string, which
  \<open>readline\<close> returns at the end of the file only; an exception leaves it as well.
\<close>

fun scan_lines :: "generator \<Rightarrow> string list \<Rightarrow> py_exc option \<times> generator" where
  "scan_lines g [] = (None, g)"
| "scan_lines g (line # rest) =
     (if line = [] then (None, g)
      else (case scan_line g line of
              (Some x, g') \<Rightarrow> (Some x, g')
            | (None, g') \<Rightarrow> scan_lines g' rest))"

text \<open>
  \<open>get_lvgl_version\<close> returns the list of the three fields, or the exception that left
  it, and the generator with the fields as the scan set them.
\<close>

definition get_lvgl_version :: "generator \<Rightarrow> string list \<Rightarrow> (py_exc + int list) \<times> generator" where
  "get_lvgl_version g lvgl_h =
     (let g = g\<lparr>lvgl_version_major := 0, lvgl_version_minor := 0, lvgl_version_patch := 0\<rparr>
      in case scan_lines g lvgl_h of
           (Some x, g') \<Rightarrow> (Inl x, g')
         | (None, g') \<Rightarrow>
             (Inr [lvgl_version_major g', lvgl_version_minor g', lvgl_version_patch g'], g'))"

text \<open>
  Three notions used to state what the scan computes. \<open>line_value macro l\<close> is the integer
  that the line \<open>l\<close> offers to the field of \<open>macro\<close>: the value of the captured digits, and
  \<open>0\<close> when the pattern of \<open>macro\<close> does not match the stripped line.
  \<open>first_nonzero macro ls\<close> is the value of the first line of \<open>ls\<close> that offers a nonzero
  value, and \<open>0\<close> when there is none. \<open>within_limit macro l\<close> says that the digits which
  the pattern of \<open>macro\<close> captures on \<open>l\<close>, if it matches, are few enough for \<open>int\<close>.
\<close>

definition line_value :: "string \<Rightarrow> string \<Rightarrow> int" where
  "line_value macro raw_line =
     (case match_define macro (strip_line raw_line) of
        None \<Rightarrow> 0
      | Some ds \<Rightarrow> digits_value ds)"

definition first_nonzero :: "string \<Rightarrow> string list \<Rightarrow> int" where
  "first_nonzero macro ls =
     (case find (\<lambda>l. line_value macro l \<noteq> 0) ls of None \<Rightarrow> 0 | Some l \<Rightarrow> line_value macro l)"

definition within_limit :: "string \<Rightarrow> string \<Rightarrow> bool" where
  "within_limit macro raw_line =
     (case match_define macro (strip_line raw_line) of
        None \<Rightarrow> True
      | Some ds \<Rightarrow> length ds \<le> int_max_str_digits)"

section \<open>Properties of the declaration model\<close>

subsection \<open>Auxiliary facts\<close>

lemma append_n_eq: "append_n s k t = s @ concat (replicate k t)"
  by (induction k arbitrary: s) (simp_all add: replicate_app_Cons_same)

lemma add_brackets_Some: "add_brackets (Some s) k = Inr (Some (s @ concat (replicate k ''[]'')))"
  by (induction k arbitrary: s) (simp_all)

lemma concat_replicate_star: "concat (replicate k ''*'') = replicate k CHR ''*''"
  by (induction k) simp_all

lemma type_to_str_eq:
  "type_to_str d True =
     type d @ (if 0 < pointer_layers d then '' '' @ replicate (pointer_layers d) CHR ''*'' else [])"
  by (simp add: type_to_str_def append_n_eq concat_replicate_star)

lemma type_to_str_void_iff:
  "type_to_str d space = ''void'' \<longleftrightarrow> type d = ''void'' \<and> pointer_layers d = 0"
proof (cases "pointer_layers d")
  case 0
  then show ?thesis by (simp add: type_to_str_def)
next
  case (Suc k)
  have "last (type_to_str d space) = CHR ''*''"
    using Suc by (simp add: type_to_str_def append_n_eq concat_replicate_star replicate_append_same[symmetric] del: replicate_Suc)
  then have "type_to_str d space \<noteq> ''void''" by auto
  then show ?thesis using Suc by simp
qed



subsection \<open>Rendering of type and name\<close>

text \<open>
  The bare concatenation \<open>type_to_str() + name_to_str(True)\<close> has no blank between the
  type and the name: for the declaration \<open>int a\<close> it is \<open>inta\<close>. The blank is not part
  of either rendering, it is added by \<open>to_str\<close>.
\<close>

theorem render_concat_counterexample:
  "str_add (type_to_str (C_obj_decl (Some ''a'') [] [] [] ''int'' 0 0) True)
           (name_to_str (C_obj_decl (Some ''a'') [] [] [] ''int'' 0 0) True) = Inr ''inta''
   \<and> str_add (type_to_str (C_obj_decl (Some ''a'') [] [] [] ''int'' 0 0) True)
           (name_to_str (C_obj_decl (Some ''a'') [] [] [] ''int'' 0 0) True)
       \<noteq> Inr (''int'' @ '' '' @ ''a'' @ concat (replicate 0 ''[]''))"
  by (simp add: type_to_str_def name_to_str_def)

text \<open>
  Claim C4, amended. For every object with a name \<open>n\<close>, base type \<open>T\<close>, pointer depth
  \<open>P\<close> and array depth \<open>A\<close>: \<open>type_to_str()\<close> is \<open>T\<close>, followed by a blank and
  \<open>P\<close> asterisks when \<open>P > 0\<close>; \<open>name_to_str(True)\<close> is \<open>n\<close> followed by
  \<open>A\<close> copies of \<open>[]\<close>; and the two joined by a blank, as \<open>to_str\<close> joins them, are
  \<open>T\<close>, the blank and the asterisks when \<open>P > 0\<close>, a blank, \<open>n\<close> and the
  \<open>A\<close> pairs of brackets.
\<close>

theorem render_type_name:
  assumes "name d = Some n"
  shows "type_to_str d True =
           type d @ (if 0 < pointer_layers d then '' '' @ replicate (pointer_layers d) CHR ''*'' else [])
       \<and> name_to_str d True = Inr (Some (n @ concat (replicate (array_layers d) ''[]'')))
       \<and> str_add (type_to_str d True @ '' '') (name_to_str d True) =
           Inr (type d
                @ (if 0 < pointer_layers d then '' '' @ replicate (pointer_layers d) CHR ''*'' else [])
                @ '' '' @ n @ concat (replicate (array_layers d) ''[]''))"
  using assms by (simp add: type_to_str_eq name_to_str_def add_brackets_Some)

text \<open>The amended claim at \<open>char * buf[][]\<close>.\<close>

theorem render_type_name_witness:
  "name (C_obj_decl (Some ''buf'') [] [] [] ''char'' 2 1) = Some ''buf''
   \<and> str_add (type_to_str (C_obj_decl (Some ''buf'') [] [] [] ''char'' 2 1) True @ '' '')
              (name_to_str (C_obj_decl (Some ''buf'') [] [] [] ''char'' 2 1) True)
       = Inr ''char * buf[][]''"
  using render_type_name [of "C_obj_decl (Some ''buf'') [] [] [] ''char'' 2 1" "''buf''"]
  by (simp add: numeral_2_eq_2)

subsection \<open>Rendering of a declaration\<close>

text \<open>
  Claim C10. When the rendered type of an object is \<open>void\<close>, \<open>to_str\<close> emits, after the
  qualifier, alignment and storage prefixes, the word \<open>void\<close> and nothing of the name or of
  the array brackets, whatever the name is; when the rendered type differs from \<open>void\<close>
  the name (with its brackets under \<open>with_array\<close>) follows the type and a blank. The
  rendered type is \<open>void\<close> exactly for the base type \<open>void\<close> with pointer depth zero.
\<close>

theorem void_decl_renders_alone:
  "(type_to_str d True = ''void'' \<longrightarrow>
      obj_to_str d semicolon with_array =
        Inr ((if quals_to_str d \<noteq> [] then quals_to_str d @ '' '' else [])
             @ (if align_to_str d \<noteq> [] then align_to_str d @ '' '' else [])
             @ (if storage_to_str d \<noteq> [] then storage_to_str d @ '' '' else [])
             @ ''void'' @ (if semicolon then '';'' else [])))
   \<and> (type_to_str d True \<noteq> ''void'' \<longrightarrow> name d = Some n \<longrightarrow>
      obj_to_str d semicolon with_array =
        Inr ((if quals_to_str d \<noteq> [] then quals_to_str d @ '' '' else [])
             @ (if align_to_str d \<noteq> [] then align_to_str d @ '' '' else [])
             @ (if storage_to_str d \<noteq> [] then storage_to_str d @ '' '' else [])
             @ type_to_str d True @ '' '' @ n
             @ (if with_array then concat (replicate (array_layers d) ''[]'') else [])
             @ (if semicolon then '';'' else [])))
   \<and> (type_to_str d True = ''void'' \<longleftrightarrow> type d = ''void'' \<and> pointer_layers d = 0)"
proof (intro conjI impI)
  assume "type_to_str d True = ''void''"
  then show "obj_to_str d semicolon with_array =
        Inr ((if quals_to_str d \<noteq> [] then quals_to_str d @ '' '' else [])
             @ (if align_to_str d \<noteq> [] then align_to_str d @ '' '' else [])
             @ (if storage_to_str d \<noteq> [] then storage_to_str d @ '' '' else [])
             @ ''void'' @ (if semicolon then '';'' else []))"
    by (simp add: obj_to_str_def)
next
  assume "type_to_str d True \<noteq> ''void''" and "name d = Some n"
  then show "obj_to_str d semicolon with_array =
        Inr ((if quals_to_str d \<noteq> [] then quals_to_str d @ '' '' else [])
             @ (if align_to_str d \<noteq> [] then align_to_str d @ '' '' else [])
             @ (if storage_to_str d \<noteq> [] then storage_to_str d @ '' '' else [])
             @ type_to_str d True @ '' '' @ n
             @ (if with_array then concat (replicate (array_layers d) ''[]'') else [])
             @ (if semicolon then '';'' else []))"
    by (simp add: obj_to_str_def name_to_str_def add_brackets_Some)
next
  show "type_to_str d True = ''void'' \<longleftrightarrow> type d = ''void'' \<and> pointer_layers d = 0"
    by (rule type_to_str_void_iff)
qed

text \<open>
  A \<open>void\<close> object named \<open>x\<close> with three array layers renders as \<open>void\<close>;
  \<open>const void * p[]\<close> keeps its name and brackets.
\<close>

theorem void_decl_renders_alone_witness:
  "type_to_str (C_obj_decl (Some ''x'') [] [] [] ''void'' 3 0) True = ''void''
   \<and> obj_to_str (C_obj_decl (Some ''x'') [] [] [] ''void'' 3 0) False True = Inr ''void''
   \<and> type_to_str (C_obj_decl (Some ''p'') [''const''] [] [] ''void'' 1 1) True \<noteq> ''void''
   \<and> name (C_obj_decl (Some ''p'') [''const''] [] [] ''void'' 1 1) = Some ''p''
   \<and> obj_to_str (C_obj_decl (Some ''p'') [''const''] [] [] ''void'' 1 1) False True
       = Inr ''const void * p[]''"
  using void_decl_renders_alone [of "C_obj_decl (Some ''x'') [] [] [] ''void'' 3 0" False True "''x''"]
        void_decl_renders_alone [of "C_obj_decl (Some ''p'') [''const''] [] [] ''void'' 1 1" False True "''p''"]
  by (simp add: type_to_str_def quals_to_str_def align_to_str_def storage_to_str_def)

subsection \<open>The forwarding call\<close>




section \<open>Properties of the wrapper emitters\<close>

lemma gen_func_text_store:
  assumes "function < length h"
  shows "snd (gen_func_text tmpl h function)
           = (case name (h ! function) of
                None \<Rightarrow> h
              | Some n \<Rightarrow> h @ [set_name (h ! function) (Some (''safe_'' @ n))])"
  using assms
  by (simp add: gen_func_text_def deepcopy_def assign_name_def Let_def nth_append
           split: option.splits sum.splits)

lemma gen_func_text_result:
  assumes "function < length h"
      and "name (h ! function) = Some n"
      and "to_str (set_name (h ! function) (Some (''safe_'' @ n))) False = Inr decl"
      and "gen_func_call (h ! function) = Inr call"
  shows "fst (gen_func_text tmpl h function)
           = Inr (replace
                    (replace
                       (replace (replace tmpl ''${func_decl}'' decl) ''${func_call}'' call)
                       ''${func_ret}''
                       (if type (h ! function) \<noteq> ''void'' then ''return ret;'' else []))
                    ''${func_comms}'' [])"
  using assms
  by (simp add: gen_func_text_def deepcopy_def assign_name_def Let_def nth_append)

text \<open>
  Claim C9. \<open>__gen_func_def__\<close> and \<open>__gen_func_decl__\<close> leave every object that was
  in the store before the call as it was, the function they were given included. When that
  function has a name \<open>n\<close>, the store afterwards is the old store followed by one new
  object, equal to the function except for its name \<open>safe_n\<close>; the declaration put into
  the template is rendered from that new object and the call from the original.
\<close>

theorem wrapper_from_independent_copy:
  assumes "function < length h"
  shows "(\<forall>i < length h. snd (gen_func_def g h function) ! i = h ! i)
       \<and> (\<forall>i < length h. snd (gen_func_decl g h function) ! i = h ! i)
       \<and> (\<forall>n. name (h ! function) = Some n \<longrightarrow>
             snd (gen_func_def g h function)
               = h @ [set_name (h ! function) (Some (''safe_'' @ n))]
           \<and> snd (gen_func_decl g h function)
               = h @ [set_name (h ! function) (Some (''safe_'' @ n))])
       \<and> (\<forall>n decl call.
             name (h ! function) = Some n
             \<and> to_str (set_name (h ! function) (Some (''safe_'' @ n))) False = Inr decl
             \<and> gen_func_call (h ! function) = Inr call \<longrightarrow>
             fst (gen_func_def g h function)
               = Inr (replace
                        (replace
                           (replace (replace (template_func_def g) ''${func_decl}'' decl)
                              ''${func_call}'' call)
                           ''${func_ret}''
                           (if type (h ! function) \<noteq> ''void'' then ''return ret;'' else []))
                        ''${func_comms}'' []))"
  using assms
  by (auto simp: gen_func_def_def gen_func_decl_def gen_func_text_store gen_func_text_result
        nth_append split: option.splits)

text \<open>
  For \<open>int* g(int a)\<close> the store afterwards holds \<open>g\<close> unchanged and the copy
  \<open>safe_g\<close>.
\<close>

theorem wrapper_from_independent_copy_witness:
  "(0::nat) < length [C_func_obj_decl (Some ''g'') [] [] [] ''int'' 0 1 [] ''int''
                       [C_obj_decl (Some ''a'') [] [] [] ''int'' 0 0]]
   \<and> snd (gen_func_def (generator_init [] ''${func_decl} { ${func_call} ${func_ret} }'')
            [C_func_obj_decl (Some ''g'') [] [] [] ''int'' 0 1 [] ''int''
               [C_obj_decl (Some ''a'') [] [] [] ''int'' 0 0]] 0)
       = [C_func_obj_decl (Some ''g'') [] [] [] ''int'' 0 1 [] ''int''
            [C_obj_decl (Some ''a'') [] [] [] ''int'' 0 0],
          C_func_obj_decl (Some ''safe_g'') [] [] [] ''int'' 0 1 [] ''int''
            [C_obj_decl (Some ''a'') [] [] [] ''int'' 0 0]]
   \<and> fst (gen_func_def (generator_init [] ''${func_decl} { ${func_call} ${func_ret} }'')
            [C_func_obj_decl (Some ''g'') [] [] [] ''int'' 0 1 [] ''int''
               [C_obj_decl (Some ''a'') [] [] [] ''int'' 0 0]] 0)
       = Inr ''int * safe_g(int a) { int * ret = g(a); return ret; }''"
proof -
  let ?f = "C_func_obj_decl (Some ''g'') [] [] [] ''int'' 0 1 [] ''int''
              [C_obj_decl (Some ''a'') [] [] [] ''int'' 0 0]"
  let ?g = "generator_init [] ''${func_decl} { ${func_call} ${func_ret} }''"
  have h: "(0::nat) < length [?f]" by simp
  have d: "to_str (set_name ([?f] ! 0) (Some (''safe_'' @ ''g''))) False = Inr ''int * safe_g(int a)''"
    by (simp add: func_to_str_def type_to_str_def quals_to_str_def storage_to_str_def
          funcspec_to_str_def align_to_str_def name_to_str_def params_to_str_def obj_to_str_def)
  have c: "gen_func_call ([?f] ! 0) = Inr ''int * ret = g(a);''"
    by (simp add: type_to_str_def)
  have t: "template_func_def ?g = ''${func_decl} { ${func_call} ${func_ret} }''"
    by (simp add: generator_init_def load_default_block_strategy_def)
  from wrapper_from_independent_copy [OF h, of ?g]
  have s: "snd (gen_func_def ?g [?f] 0) = [?f] @ [set_name ([?f] ! 0) (Some (''safe_'' @ ''g''))]"
    and r: "fst (gen_func_def ?g [?f] 0)
               = Inr (replace
                        (replace
                           (replace (replace (template_func_def ?g) ''${func_decl}'' ''int * safe_g(int a)'')
                              ''${func_call}'' ''int * ret = g(a);'')
                           ''${func_ret}''
                           (if type ([?f] ! 0) \<noteq> ''void'' then ''return ret;'' else []))
                        ''${func_comms}'' [])"
    using d c by auto
  have r': "fst (gen_func_def ?g [?f] 0) = Inr ''int * safe_g(int a) { int * ret = g(a); return ret; }''"
    unfolding r t by (simp add: replace_def)
  show ?thesis using h s r' by simp
qed

text \<open>
  Claim C2 at the function \<open>void *f(void)\<close>. Its rendered return type is \<open>void *\<close>
  and \<open>gen_func_call\<close> declares \<open>ret\<close>, but the emitter compares the base type alone
  with \<open>void\<close>: the token \<open>${func_ret}\<close> is replaced by the empty string.
\<close>

theorem void_pointer_wrapper_drops_return:
  "type_to_str (C_func_obj_decl (Some ''f'') [] [] [] ''void'' 0 1 [] ''void''
                  [C_obj_decl None [] [] [] ''void'' 0 0]) True = ''void *''
   \<and> fst (gen_func_def (generator_init [] ''${func_decl} { ${func_call} ${func_ret} }'')
            [C_func_obj_decl (Some ''f'') [] [] [] ''void'' 0 1 [] ''void''
               [C_obj_decl None [] [] [] ''void'' 0 0]] 0)
       = Inr ''void * safe_f(void) { void * ret = f();  }''
   \<and> fst (gen_func_def (generator_init [] ''${func_ret}'')
            [C_func_obj_decl (Some ''f'') [] [] [] ''void'' 0 1 [] ''void''
               [C_obj_decl None [] [] [] ''void'' 0 0]] 0)
       = Inr ''''"
  by (simp add: gen_func_def_def gen_func_text_def generator_init_def load_default_block_strategy_def
       deepcopy_def assign_name_def func_to_str_def type_to_str_def
       quals_to_str_def storage_to_str_def funcspec_to_str_def align_to_str_def name_to_str_def
       params_to_str_def obj_to_str_def replace_def)

section \<open>Properties of the collector\<close>

subsection \<open>Conversion failures\<close>

text \<open>
  Claim C1 at a function returning a union, followed by a well-formed function: the
  conversion raises a plain \<open>Exception\<close>, which the handler for
  \<open>NotImplementedError\<close> lets through; it leaves \<open>__parse_header__\<close>, nothing is logged
  and the second function is never collected. A declaration with an alignment ends the same
  way. A variadic function, whose exception is a \<open>NotImplementedError\<close>, is skipped with a
  warning.
\<close>

theorem plain_exception_escapes_collector:
  "parse_header (generator_init [] [])
     [Decl (Some ''lv_get_u'') [] [] [] []
        (FuncDecl (Some [Typename None [] (TypeDecl (IdentifierType [''void'']))])
                  (TypeDecl (Union (Some ''u'')))),
      Decl (Some ''lv_next'') [] [] [] []
        (FuncDecl (Some [Typename None [] (TypeDecl (IdentifierType [''void'']))])
                  (TypeDecl (IdentifierType [''int''])))]
     = (Inl PyException, generator_init [] [])
   \<and> fst (parse_header (generator_init [] [])
       [Decl (Some ''lv_aligned'') [] [OtherNode] [] []
          (FuncDecl (Some [Typename None [] (TypeDecl (IdentifierType [''void'']))])
                    (TypeDecl (IdentifierType [''int''])))])
     = Inl PyException
   \<and> parse_header (generator_init [] [])
       [Decl (Some ''lv_log'') [] [] [] []
          (FuncDecl (Some [Decl (Some ''fmt'') [''const''] [] [] []
                             (PtrDecl (TypeDecl (IdentifierType [''char'']))),
                           EllipsisParam])
                    (TypeDecl (IdentifierType [''void''])))]
     = (Inr 0, (generator_init [] [])
                 \<lparr>logger := [LogWarning ''Parse function error: lv_log error: EllipsisParam is not supported temporarily.'']\<rparr>)"
  by (simp add: parse_header_def add_lvgl_func_def generator_init_def
        load_default_block_strategy_def default_block_pattern_def re_match_def
        get_nesting_type_def
        c_obj_decl_init_def c_func_obj_decl_init_def parse_error_message_def)

text \<open>
  Claim C3 at a declarator whose terminal type node is an enum: \<open>__get_nesting_type__\<close>
  knows \<open>Struct\<close> and \<open>IdentifierType\<close> under a \<open>TypeDecl\<close> and raises for
  \<open>Enum\<close>, behind pointer layers too, so the declaration \<open>enum color c\<close> is not
  converted. The text \<open>enum color\<close> is produced only for a declaration whose type is the
  enum node itself; a struct under a \<open>TypeDecl\<close> is resolved.
\<close>

theorem enum_declarator_not_resolved:
  "get_nesting_type (TypeDecl (Enum tag)) = Inl PyException
   \<and> get_nesting_type (PtrDecl (TypeDecl (Enum tag))) = Inl PyException
   \<and> c_decl_to_c_obj (Decl (Some ''c'') [] [] [] [] (TypeDecl (Enum (Some ''color''))))
       = Inl PyException
   \<and> c_decl_to_c_obj (Decl None [] [] [] [] (Enum (Some ''color'')))
       = Inr (C_obj_decl None [] [] [] ''enum color'' 0 0)
   \<and> get_nesting_type (TypeDecl (Struct (Some ''point''))) = Inr (''struct point'', 0, 0)"
  by (simp add: get_nesting_type_def c_obj_decl_init_def)

subsection \<open>Blacklisting\<close>

lemma re_match_iff:
  "re_match p s \<longleftrightarrow> (\<exists>k \<le> length s. p (take k s) (drop k s))"
proof -
  have "re_match p s \<longleftrightarrow> (\<exists>k. k < Suc (length s) \<and> p (take k s) (drop k s))"
    unfolding re_match_def list_ex_iff set_upt Bex_def atLeastLessThan_iff by blast
  then show ?thesis unfolding less_Suc_eq_le by blast
qed

lemma in_blacklist_Some:
  "in_blacklist pats (Some n) = Inr (\<exists>p \<in> set pats. re_match p n)"
  by (induction pats) auto

text \<open>
  Claim C7. A function node with name \<open>n\<close> is discarded by blacklisting (the result is
  \<open>False\<close> and the informational record is logged) if and only if some pattern of the list
  matches a prefix of \<open>n\<close>: for some \<open>k\<close> the pattern matches the first \<open>k\<close>
  characters of \<open>n\<close>, from its first character on, with the remaining characters
  following. The loop over the patterns computes that disjunction. The prefix need not be the
  whole name: when a pattern matches a text \<open>m\<close> followed by \<open>r\<close>, the name
  \<open>m @ r\<close> is discarded. With an empty list no name is excluded.
\<close>

theorem blacklist_prefix_match:
  "(node_name nd = Inr (Some n) \<longrightarrow>
      (add_lvgl_func g nd
         = (Inr False, g\<lparr>logger := logger g @ [LogInfo (blacklist_message (Some n))]\<rparr>))
      = (\<exists>p \<in> set (blacklist_func_patterns g). \<exists>k \<le> length n. p (take k n) (drop k n)))
   \<and> in_blacklist pats (Some n)
       = Inr (\<exists>p \<in> set pats. \<exists>k \<le> length n. p (take k n) (drop k n))
   \<and> (\<forall>p \<in> set pats. \<forall>m r. p m r \<longrightarrow> in_blacklist pats (Some (m @ r)) = Inr True)
   \<and> in_blacklist [] nm = Inr False"
proof (intro conjI impI ballI allI)
  assume nm: "node_name nd = Inr (Some n)"
  show "(add_lvgl_func g nd
         = (Inr False, g\<lparr>logger := logger g @ [LogInfo (blacklist_message (Some n))]\<rparr>))
      = (\<exists>p \<in> set (blacklist_func_patterns g). \<exists>k \<le> length n. p (take k n) (drop k n))"
  proof (cases "\<exists>p \<in> set (blacklist_func_patterns g). re_match p n")
    case True
    then show ?thesis using nm
      by (auto simp: add_lvgl_func_def in_blacklist_Some re_match_iff)
  next
    case False
    have "add_lvgl_func g nd
         \<noteq> (Inr False, g\<lparr>logger := logger g @ [LogInfo (blacklist_message (Some n))]\<rparr>)"
    proof
      assume a: "add_lvgl_func g nd
         = (Inr False, g\<lparr>logger := logger g @ [LogInfo (blacklist_message (Some n))]\<rparr>)"
      then have "logger (snd (add_lvgl_func g nd))
                   = logger g @ [LogInfo (blacklist_message (Some n))]"
        by simp
      moreover have "logger (snd (add_lvgl_func g nd)) = logger g
          \<or> logger (snd (add_lvgl_func g nd)) = logger g @ [LogWarning (parse_error_message n)]"
        using False nm
        by (auto simp: add_lvgl_func_def in_blacklist_Some split: sum.splits if_splits)
      ultimately show False by auto
    qed
    then show ?thesis using False by (auto simp: re_match_iff)
  qed
next
  show "in_blacklist pats (Some n)
       = Inr (\<exists>p \<in> set pats. \<exists>k \<le> length n. p (take k n) (drop k n))"
    by (simp add: in_blacklist_Some re_match_iff)
next
  fix p m r
  assume p: "p \<in> set pats" and m: "p m r"
  have "\<exists>k \<le> length (m @ r). p (take k (m @ r)) (drop k (m @ r))"
    using m by (intro exI [of _ "length m"]) simp
  then show "in_blacklist pats (Some (m @ r)) = Inr True"
    using p by (auto simp: in_blacklist_Some re_match_iff)
next
  show "in_blacklist [] nm = Inr False" by simp
qed

text \<open>
  The default pattern matches the first three characters of \<open>_lv_internal\<close>, not the whole
  name, and the function is discarded; \<open>lv_public\<close> is not matched, nor is
  \<open>my_lv_obj\<close>, where \<open>_lv\<close> is not at the start; with no pattern
  \<open>_lv_internal\<close> is not excluded.
\<close>

theorem blacklist_prefix_match_witness:
  "node_name (Decl (Some ''_lv_internal'') [] [] [] [] (FuncDecl (Some []) (TypeDecl (IdentifierType [''void''])))) = Inr (Some ''_lv_internal'')
   \<and> default_block_pattern (take 3 ''_lv_internal'') (drop 3 ''_lv_internal'')
   \<and> add_lvgl_func (generator_init [] [])
        (Decl (Some ''_lv_internal'') [] [] [] [] (FuncDecl (Some []) (TypeDecl (IdentifierType [''void'']))))
      = (Inr False, (generator_init [] [])\<lparr>logger := [LogInfo ''Function _lv_internal is in blacklist.'']\<rparr>)
   \<and> in_blacklist [default_block_pattern] (Some ''lv_public'') = Inr False
   \<and> in_blacklist [default_block_pattern] (Some ''my_lv_obj'') = Inr False
   \<and> in_blacklist [] (Some ''_lv_internal'') = Inr False"
proof -
  let ?nd = "Decl (Some ''_lv_internal'') [] [] [] [] (FuncDecl (Some []) (TypeDecl (IdentifierType [''void''])))"
  let ?g = "generator_init [] []"
  have n: "node_name ?nd = Inr (Some ''_lv_internal'')" by simp
  have d: "default_block_pattern (take 3 ''_lv_internal'') (drop 3 ''_lv_internal'')"
    by (simp add: default_block_pattern_def)
  have pats: "blacklist_func_patterns ?g = [default_block_pattern]"
    by (simp add: generator_init_def load_default_block_strategy_def)
  have ex: "\<exists>p \<in> set (blacklist_func_patterns ?g).
              \<exists>k \<le> length ''_lv_internal''. p (take k ''_lv_internal'') (drop k ''_lv_internal'')"
    unfolding pats using d by (intro bexI [of _ default_block_pattern] exI [of _ 3]) simp_all
  have lg: "logger ?g = []" by (simp add: generator_init_def load_default_block_strategy_def)
  have no1: "\<not> (\<exists>p \<in> set [default_block_pattern].
              \<exists>k \<le> length ''lv_public''. p (take k ''lv_public'') (drop k ''lv_public''))"
    by (auto simp: default_block_pattern_def take_Cons' split: if_splits)
  have no2: "\<not> (\<exists>p \<in> set [default_block_pattern].
              \<exists>k \<le> length ''my_lv_obj''. p (take k ''my_lv_obj'') (drop k ''my_lv_obj''))"
    by (auto simp: default_block_pattern_def take_Cons' split: if_splits)
  from blacklist_prefix_match [of ?nd "''_lv_internal''" ?g "[default_block_pattern]" None]
  have a: "add_lvgl_func ?g ?nd
      = (Inr False, ?g\<lparr>logger := [LogInfo ''Function _lv_internal is in blacklist.'']\<rparr>)"
    using n ex lg by (simp add: blacklist_message_def)
  from blacklist_prefix_match [of ?nd "''lv_public''" ?g "[default_block_pattern]" None]
  have b: "in_blacklist [default_block_pattern] (Some ''lv_public'') = Inr False"
    using no1 by simp
  from blacklist_prefix_match [of ?nd "''my_lv_obj''" ?g "[default_block_pattern]" None]
  have c: "in_blacklist [default_block_pattern] (Some ''my_lv_obj'') = Inr False"
    using no2 by simp
  from blacklist_prefix_match [of ?nd "''_lv_internal''" ?g "[]" "Some ''_lv_internal''"]
  have e: "in_blacklist [] (Some ''_lv_internal'') = Inr False" by simp
  show ?thesis using n d a b c e by (simp only: simp_thms)
qed

subsection \<open>The collected list\<close>

lemma in_func_list_iff: "in_func_list fs nm \<longleftrightarrow> nm \<in> set (map name fs)"
  by (induction fs) auto

lemma c_decl_to_c_obj_name:
  assumes "c_decl_to_c_obj fn = Inr f" and "node_name fn = Inr nm"
  shows "name f = nm"
proof (cases fn)
  case (Decl n qs al st fs ty)
  then show ?thesis using assms
    by (auto simp: c_obj_decl_init_def c_func_obj_decl_init_def
             split: if_splits node.splits option.splits sum.splits prod.splits)
next
  case (Typename n qs ty)
  then show ?thesis using assms
    by (auto simp: c_obj_decl_init_def split: node.splits sum.splits prod.splits)
qed (use assms in auto)

lemma add_lvgl_func_list:
  "func_list (snd (add_lvgl_func g fn)) = func_list g
   \<or> (\<exists>f. func_list (snd (add_lvgl_func g fn)) = func_list g @ [f]
          \<and> c_decl_to_c_obj fn = Inr f \<and> node_name fn = Inr (name f)
          \<and> name f \<notin> set (map name (func_list g)))"
proof (cases "node_name fn")
  case (Inl e)
  then show ?thesis by (simp add: add_lvgl_func_def)
next
  case (Inr nm)
  show ?thesis
  proof (cases "c_decl_to_c_obj fn")
    case (Inl e)
    then show ?thesis using Inr
      by (auto simp: add_lvgl_func_def split: sum.splits bool.splits option.splits)
  next
    case f: (Inr f)
    then have "name f = nm" using Inr by (rule c_decl_to_c_obj_name)
    then show ?thesis using Inr f
      by (auto simp: add_lvgl_func_def in_func_list_iff split: sum.splits bool.splits)
  qed
qed

lemma add_lvgl_func_distinct:
  assumes "distinct (map name (func_list g))"
  shows "distinct (map name (func_list (snd (add_lvgl_func g fn))))"
  using add_lvgl_func_list [of g fn] assms by auto

lemma add_lvgl_func_prefix:
  "prefix (func_list g) (func_list (snd (add_lvgl_func g fn)))"
  using add_lvgl_func_list [of g fn] by auto

lemma parse_nodes_distinct:
  "distinct (map name (func_list g)) \<Longrightarrow>
   distinct (map name (func_list (snd (parse_nodes g nodes))))"
proof (induction nodes arbitrary: g)
  case Nil
  then show ?case by simp
next
  case (Cons nd nodes)
  show ?case
  proof (cases "func_node_of nd")
    case None
    then show ?thesis using Cons by simp
  next
    case (Some fn)
    obtain r g' where r: "add_lvgl_func g fn = (r, g')" by (cases "add_lvgl_func g fn")
    have d: "distinct (map name (func_list g'))"
      using add_lvgl_func_distinct [OF Cons.prems, of fn] r by simp
    show ?thesis
    proof (cases r)
      case (Inl e)
      then show ?thesis using Some r d by simp
    next
      case (Inr b)
      then show ?thesis using Some r Cons.IH [OF d] by simp
    qed
  qed
qed

lemma parse_nodes_prefix:
  "prefix (func_list g) (func_list (snd (parse_nodes g nodes)))"
proof (induction nodes arbitrary: g)
  case Nil
  then show ?case by simp
next
  case (Cons nd nodes)
  show ?case
  proof (cases "func_node_of nd")
    case None
    then show ?thesis using Cons by simp
  next
    case (Some fn)
    obtain r g' where r: "add_lvgl_func g fn = (r, g')" by (cases "add_lvgl_func g fn")
    have p: "prefix (func_list g) (func_list g')"
      using add_lvgl_func_prefix [of g fn] r by simp
    show ?thesis
    proof (cases r)
      case (Inl e)
      then show ?thesis using Some r p by simp
    next
      case (Inr b)
      have "prefix (func_list g') (func_list (snd (parse_nodes g' nodes)))" by (rule Cons.IH)
      with p have "prefix (func_list g) (func_list (snd (parse_nodes g' nodes)))"
        by (rule prefix_order.trans)
      then show ?thesis using Some r Inr by simp
    qed
  qed
qed

lemma parse_nodes_append:
  "parse_nodes g (pre @ post) =
     (case parse_nodes g pre of (Some e, g') \<Rightarrow> (Some e, g') | (None, g') \<Rightarrow> parse_nodes g' post)"
proof (induction pre arbitrary: g)
  case Nil
  then show ?case by simp
next
  case (Cons nd pre)
  show ?case
  proof (cases "func_node_of nd")
    case None
    then show ?thesis using Cons by simp
  next
    case (Some fn)
    then show ?thesis using Cons
      by (auto split: prod.splits sum.splits option.splits)
  qed
qed

lemma parse_nodes_segment:
  "prefix (func_list (snd (parse_nodes g pre))) (func_list (snd (parse_nodes g (pre @ post))))"
proof (cases "parse_nodes g pre")
  case (Pair r g')
  show ?thesis
  proof (cases r)
    case None
    then show ?thesis using Pair parse_nodes_prefix [of g' post] by (simp add: parse_nodes_append)
  next
    case (Some e)
    then show ?thesis using Pair by (simp add: parse_nodes_append)
  qed
qed

lemma parse_nodes_origin:
  assumes "f \<in> set (func_list (snd (parse_nodes g nodes)))" and "f \<notin> set (func_list g)"
  shows "\<exists>nd \<in> set nodes. \<exists>fn. func_node_of nd = Some fn
            \<and> node_name fn = Inr (name f) \<and> c_decl_to_c_obj fn = Inr f"
  using assms
proof (induction nodes arbitrary: g)
  case Nil
  then show ?case by simp
next
  case (Cons nd nodes)
  show ?case
  proof (cases "func_node_of nd")
    case None
    then show ?thesis using Cons by auto
  next
    case (Some fn)
    obtain r g' where r: "add_lvgl_func g fn = (r, g')" by (cases "add_lvgl_func g fn")
    have step: "func_list g' = func_list g
        \<or> (\<exists>f'. func_list g' = func_list g @ [f'] \<and> c_decl_to_c_obj fn = Inr f'
                \<and> node_name fn = Inr (name f'))"
      using add_lvgl_func_list [of g fn] r by auto
    have fin: "f \<in> set (func_list g') \<or> f \<in> set (func_list (snd (parse_nodes g' nodes)))"
      using Cons.prems(1) Some r by (cases r) auto
    show ?thesis
    proof (cases "f \<in> set (func_list g')")
      case True
      then have "c_decl_to_c_obj fn = Inr f \<and> node_name fn = Inr (name f)"
        using step Cons.prems(2) by auto
      then show ?thesis using Some by auto
    next
      case False
      then have "f \<in> set (func_list (snd (parse_nodes g' nodes)))" using fin by simp
      from Cons.IH [OF this False] show ?thesis by auto
    qed
  qed
qed

lemma add_lvgl_func_patterns:
  "blacklist_func_patterns (snd (add_lvgl_func g fn)) = blacklist_func_patterns g"
  by (simp add: add_lvgl_func_def split: sum.splits bool.splits option.splits)

lemma parse_nodes_patterns:
  "blacklist_func_patterns (snd (parse_nodes g nodes)) = blacklist_func_patterns g"
proof (induction nodes arbitrary: g)
  case Nil
  then show ?case by simp
next
  case (Cons nd nodes)
  show ?case
  proof (cases "func_node_of nd")
    case None
    then show ?thesis using Cons by simp
  next
    case (Some fn)
    obtain r g' where r: "add_lvgl_func g fn = (r, g')" by (cases "add_lvgl_func g fn")
    have p: "blacklist_func_patterns g' = blacklist_func_patterns g"
      using add_lvgl_func_patterns [of g fn] r by simp
    show ?thesis
    proof (cases r)
      case (Inl e)
      then show ?thesis using Some r p by simp
    next
      case (Inr b)
      then show ?thesis using Some r p Cons.IH [of g'] by simp
    qed
  qed
qed

lemma add_lvgl_func_collects:
  assumes "node_name fn = Inr (Some n)"
      and "\<not> (\<exists>p \<in> set (blacklist_func_patterns g). re_match p n)"
      and "Some n \<notin> set (map name (func_list g))"
      and "c_decl_to_c_obj fn = Inr f"
  shows "add_lvgl_func g fn = (Inr True, g\<lparr>func_list := func_list g @ [f]\<rparr>)"
  using assms by (simp add: add_lvgl_func_def in_blacklist_Some in_func_list_iff)

lemma parse_nodes_names:
  assumes "nm \<in> set (map name (func_list (snd (parse_nodes g nodes))))"
      and "nm \<notin> set (map name (func_list g))"
  shows "\<exists>nd \<in> set nodes. \<exists>fn f. func_node_of nd = Some fn
            \<and> node_name fn = Inr nm \<and> c_decl_to_c_obj fn = Inr f"
proof -
  from assms(1) obtain f where f: "f \<in> set (func_list (snd (parse_nodes g nodes)))"
    and n: "name f = nm" by auto
  have "f \<notin> set (func_list g)" using assms(2) n by auto
  from parse_nodes_origin [OF f this] show ?thesis using n by auto
qed

lemma first_seen_collected:
  assumes run: "fst (parse_nodes g pre) = None"
      and fn: "func_node_of nd = Some fn"
      and nm: "node_name fn = Inr (Some n)"
      and first: "\<forall>nd' \<in> set pre. \<forall>fn'. func_node_of nd' = Some fn' \<longrightarrow> node_name fn' \<noteq> Inr (Some n)"
      and fresh: "Some n \<notin> set (map name (func_list g))"
      and nb: "\<not> (\<exists>p \<in> set (blacklist_func_patterns g). re_match p n)"
      and conv: "c_decl_to_c_obj fn = Inr f"
  shows "f \<in> set (func_list (snd (parse_nodes g (pre @ nd # post))))"
proof -
  obtain g1 where g1: "parse_nodes g pre = (None, g1)"
    using run by (cases "parse_nodes g pre") auto
  have fresh1: "Some n \<notin> set (map name (func_list g1))"
  proof
    assume "Some n \<in> set (map name (func_list g1))"
    then have "Some n \<in> set (map name (func_list (snd (parse_nodes g pre))))" using g1 by simp
    from parse_nodes_names [OF this fresh] show False using first by blast
  qed
  have nb1: "\<not> (\<exists>p \<in> set (blacklist_func_patterns g1). re_match p n)"
    using nb parse_nodes_patterns [of g pre] g1 by simp
  have step: "add_lvgl_func g1 fn = (Inr True, g1\<lparr>func_list := func_list g1 @ [f]\<rparr>)"
    using nm nb1 fresh1 conv by (rule add_lvgl_func_collects)
  have "parse_nodes g (pre @ nd # post)
          = parse_nodes (g1\<lparr>func_list := func_list g1 @ [f]\<rparr>) post"
    using g1 fn step by (simp add: parse_nodes_append)
  moreover have "prefix (func_list (g1\<lparr>func_list := func_list g1 @ [f]\<rparr>))
                   (func_list (snd (parse_nodes (g1\<lparr>func_list := func_list g1 @ [f]\<rparr>) post)))"
    by (rule parse_nodes_prefix)
  ultimately have "prefix (func_list g1 @ [f]) (func_list (snd (parse_nodes g (pre @ nd # post))))"
    by simp
  then show ?thesis by (auto simp: prefix_def)
qed

lemma distinct_name_unique:
  assumes "distinct (map name fs)" and "f \<in> set fs" and "f' \<in> set fs" and "name f' = name f"
  shows "f' = f"
  using assms by (meson distinct_map inj_onD)

text \<open>
  Claim C6, amended. Starting from a list of functions with pairwise distinct names (the
  empty list of a new generator), the list after \<open>__parse_header__\<close> has pairwise distinct
  names, whether the loop ran to its end or was left by an exception; the list collected over
  any initial segment of the nodes is a prefix of the final list; and every entry added is the
  complete result of a successful conversion of one of the function nodes, under that node's
  name. When the first-seen declaration of a name is reached by the loop (no exception has left
  it before), the name is not blacklisted and the declaration converts, its conversion is in
  the final list and is the only entry of that name, so every later declaration of the name
  is discarded. A name none of whose declarations converts has no entry.
\<close>

theorem first_seen_declaration_collected:
  assumes "distinct (map name (func_list g))"
  shows "distinct (map name (func_list (snd (parse_header g ast))))
       \<and> (\<forall>pre post. ast = pre @ post \<longrightarrow>
             prefix (func_list (snd (parse_header g pre))) (func_list (snd (parse_header g ast))))
       \<and> (\<forall>f \<in> set (func_list (snd (parse_header g ast))) - set (func_list g).
             \<exists>nd \<in> set ast. \<exists>fn. func_node_of nd = Some fn
                \<and> node_name fn = Inr (name f) \<and> c_decl_to_c_obj fn = Inr f)
       \<and> (\<forall>pre nd post fn n f.
             ast = pre @ nd # post
             \<and> (\<forall>e. fst (parse_header g pre) \<noteq> Inl e)
             \<and> func_node_of nd = Some fn \<and> node_name fn = Inr (Some n)
             \<and> (\<forall>nd' \<in> set pre. \<forall>fn'. func_node_of nd' = Some fn' \<longrightarrow>
                    node_name fn' \<noteq> Inr (Some n))
             \<and> Some n \<notin> set (map name (func_list g))
             \<and> \<not> (\<exists>p \<in> set (blacklist_func_patterns g).
                      \<exists>k \<le> length n. p (take k n) (drop k n))
             \<and> c_decl_to_c_obj fn = Inr f
             \<longrightarrow> f \<in> set (func_list (snd (parse_header g ast)))
                 \<and> (\<forall>f' \<in> set (func_list (snd (parse_header g ast))).
                       name f' = Some n \<longrightarrow> f' = f))
       \<and> (\<forall>nm. nm \<notin> set (map name (func_list g))
             \<and> (\<forall>nd \<in> set ast. \<forall>fn f. func_node_of nd = Some fn \<and> node_name fn = Inr nm
                    \<longrightarrow> c_decl_to_c_obj fn \<noteq> Inr f)
             \<longrightarrow> nm \<notin> set (map name (func_list (snd (parse_header g ast)))))"
proof -
  have snd_eq: "\<And>ns. func_list (snd (parse_header g ns)) = func_list (snd (parse_nodes g ns))"
    by (simp add: parse_header_def split: prod.splits option.splits)
  have fst_eq: "\<And>ns. (\<forall>e. fst (parse_header g ns) \<noteq> Inl e) \<Longrightarrow> fst (parse_nodes g ns) = None"
    by (auto simp: parse_header_def split: prod.splits option.splits)
  have d: "distinct (map name (func_list (snd (parse_nodes g ast))))"
    using assms by (rule parse_nodes_distinct)
  have c1: "distinct (map name (func_list (snd (parse_header g ast))))"
    unfolding snd_eq by (rule d)
  have c2: "\<forall>pre post. ast = pre @ post \<longrightarrow>
             prefix (func_list (snd (parse_header g pre))) (func_list (snd (parse_header g ast)))"
    unfolding snd_eq using parse_nodes_segment [of g] by auto
  have c3: "\<forall>f \<in> set (func_list (snd (parse_header g ast))) - set (func_list g).
             \<exists>nd \<in> set ast. \<exists>fn. func_node_of nd = Some fn
                \<and> node_name fn = Inr (name f) \<and> c_decl_to_c_obj fn = Inr f"
    unfolding snd_eq using parse_nodes_origin [of _ g ast] by auto
  have c4: "\<forall>pre nd post fn n f.
             ast = pre @ nd # post
             \<and> (\<forall>e. fst (parse_header g pre) \<noteq> Inl e)
             \<and> func_node_of nd = Some fn \<and> node_name fn = Inr (Some n)
             \<and> (\<forall>nd' \<in> set pre. \<forall>fn'. func_node_of nd' = Some fn' \<longrightarrow>
                    node_name fn' \<noteq> Inr (Some n))
             \<and> Some n \<notin> set (map name (func_list g))
             \<and> \<not> (\<exists>p \<in> set (blacklist_func_patterns g).
                      \<exists>k \<le> length n. p (take k n) (drop k n))
             \<and> c_decl_to_c_obj fn = Inr f
             \<longrightarrow> f \<in> set (func_list (snd (parse_header g ast)))
                 \<and> (\<forall>f' \<in> set (func_list (snd (parse_header g ast))).
                       name f' = Some n \<longrightarrow> f' = f)"
  proof (intro allI impI)
    fix pre nd post fn n f
    assume a: "ast = pre @ nd # post
             \<and> (\<forall>e. fst (parse_header g pre) \<noteq> Inl e)
             \<and> func_node_of nd = Some fn \<and> node_name fn = Inr (Some n)
             \<and> (\<forall>nd' \<in> set pre. \<forall>fn'. func_node_of nd' = Some fn' \<longrightarrow>
                    node_name fn' \<noteq> Inr (Some n))
             \<and> Some n \<notin> set (map name (func_list g))
             \<and> \<not> (\<exists>p \<in> set (blacklist_func_patterns g).
                      \<exists>k \<le> length n. p (take k n) (drop k n))
             \<and> c_decl_to_c_obj fn = Inr f"
    then have run: "fst (parse_nodes g pre) = None" using fst_eq by blast
    have nb: "\<not> (\<exists>p \<in> set (blacklist_func_patterns g). re_match p n)"
      unfolding re_match_iff using a by blast
    have mem: "f \<in> set (func_list (snd (parse_nodes g (pre @ nd # post))))"
      using run a nb by (intro first_seen_collected [where fn = fn and n = n]) blast+
    have nf: "name f = Some n"
      using a c_decl_to_c_obj_name [of fn f "Some n"] by blast
    have uniq: "\<forall>f' \<in> set (func_list (snd (parse_nodes g (pre @ nd # post)))).
                  name f' = Some n \<longrightarrow> f' = f"
      using d mem nf a distinct_name_unique by metis
    show "f \<in> set (func_list (snd (parse_header g ast)))
                 \<and> (\<forall>f' \<in> set (func_list (snd (parse_header g ast))).
                       name f' = Some n \<longrightarrow> f' = f)"
      unfolding snd_eq using mem uniq a by blast
  qed
  have c5: "\<forall>nm. nm \<notin> set (map name (func_list g))
             \<and> (\<forall>nd \<in> set ast. \<forall>fn f. func_node_of nd = Some fn \<and> node_name fn = Inr nm
                    \<longrightarrow> c_decl_to_c_obj fn \<noteq> Inr f)
             \<longrightarrow> nm \<notin> set (map name (func_list (snd (parse_header g ast))))"
    unfolding snd_eq using parse_nodes_names [of _ g ast] by blast
  show ?thesis using c1 c2 c3 c4 c5 by (intro conjI)
qed

text \<open>
  Two declarations of \<open>lv_foo\<close>, the first returning \<open>int\<close> and the second
  \<open>void\<close>, with a variadic \<open>lv_log\<close> between them: the first \<open>lv_foo\<close> is
  collected, it is the only entry, and \<open>lv_log\<close> has none.
\<close>

theorem first_seen_declaration_collected_witness:
  "distinct (map name (func_list (generator_init [] [])))
   \<and> func_list (snd (parse_header (generator_init [] [])
        [Decl (Some ''lv_foo'') [] [] [] []
           (FuncDecl (Some [Typename None [] (TypeDecl (IdentifierType [''void'']))])
                     (TypeDecl (IdentifierType [''int'']))),
         Decl (Some ''lv_log'') [] [] [] []
           (FuncDecl (Some [Decl (Some ''fmt'') [] [] [] []
                              (PtrDecl (TypeDecl (IdentifierType [''char'']))),
                            EllipsisParam])
                     (TypeDecl (IdentifierType [''void'']))),
         Decl (Some ''lv_foo'') [] [] [] []
           (FuncDecl (Some [Typename None [] (TypeDecl (IdentifierType [''void'']))])
                     (TypeDecl (IdentifierType [''void''])))]))
       = [C_func_obj_decl (Some ''lv_foo'') [] [] [] ''int'' 0 0 [] ''int''
            [C_obj_decl None [] [] [] ''void'' 0 0]]
   \<and> C_func_obj_decl (Some ''lv_foo'') [] [] [] ''int'' 0 0 [] ''int''
            [C_obj_decl None [] [] [] ''void'' 0 0]
       \<in> set (func_list (snd (parse_header (generator_init [] [])
        [Decl (Some ''lv_foo'') [] [] [] []
           (FuncDecl (Some [Typename None [] (TypeDecl (IdentifierType [''void'']))])
                     (TypeDecl (IdentifierType [''int'']))),
         Decl (Some ''lv_log'') [] [] [] []
           (FuncDecl (Some [Decl (Some ''fmt'') [] [] [] []
                              (PtrDecl (TypeDecl (IdentifierType [''char'']))),
                            EllipsisParam])
                     (TypeDecl (IdentifierType [''void'']))),
         Decl (Some ''lv_foo'') [] [] [] []
           (FuncDecl (Some [Typename None [] (TypeDecl (IdentifierType [''void'']))])
                     (TypeDecl (IdentifierType [''void''])))])))
   \<and> Some ''lv_log'' \<notin> set (map name (func_list (snd (parse_header (generator_init [] [])
        [Decl (Some ''lv_foo'') [] [] [] []
           (FuncDecl (Some [Typename None [] (TypeDecl (IdentifierType [''void'']))])
                     (TypeDecl (IdentifierType [''int'']))),
         Decl (Some ''lv_log'') [] [] [] []
           (FuncDecl (Some [Decl (Some ''fmt'') [] [] [] []
                              (PtrDecl (TypeDecl (IdentifierType [''char'']))),
                            EllipsisParam])
                     (TypeDecl (IdentifierType [''void'']))),
         Decl (Some ''lv_foo'') [] [] [] []
           (FuncDecl (Some [Typename None [] (TypeDecl (IdentifierType [''void'']))])
                     (TypeDecl (IdentifierType [''void''])))]))))"
proof -
  let ?n1 = "Decl (Some ''lv_foo'') [] [] [] []
           (FuncDecl (Some [Typename None [] (TypeDecl (IdentifierType [''void'']))])
                     (TypeDecl (IdentifierType [''int''])))"
  let ?n2 = "Decl (Some ''lv_log'') [] [] [] []
           (FuncDecl (Some [Decl (Some ''fmt'') [] [] [] []
                              (PtrDecl (TypeDecl (IdentifierType [''char'']))),
                            EllipsisParam])
                     (TypeDecl (IdentifierType [''void''])))"
  let ?n3 = "Decl (Some ''lv_foo'') [] [] [] []
           (FuncDecl (Some [Typename None [] (TypeDecl (IdentifierType [''void'']))])
                     (TypeDecl (IdentifierType [''void''])))"
  let ?f = "C_func_obj_decl (Some ''lv_foo'') [] [] [] ''int'' 0 0 [] ''int''
            [C_obj_decl None [] [] [] ''void'' 0 0]"
  let ?g = "generator_init [] []"
  have h: "distinct (map name (func_list ?g))"
    by (simp add: generator_init_def load_default_block_strategy_def)
  have e: "func_list (snd (parse_header ?g [?n1, ?n2, ?n3])) = [?f]"
    by (simp add: parse_header_def add_lvgl_func_def generator_init_def
        load_default_block_strategy_def default_block_pattern_def re_match_def
        get_nesting_type_def c_obj_decl_init_def c_func_obj_decl_init_def parse_error_message_def)
  note T = first_seen_declaration_collected [OF h, of "[?n1, ?n2, ?n3]"]
  have run: "\<forall>e. fst (parse_header ?g []) \<noteq> Inl e" by (simp add: parse_header_def)
  have conv: "c_decl_to_c_obj ?n1 = Inr ?f"
    by (simp add: get_nesting_type_def c_obj_decl_init_def c_func_obj_decl_init_def)
  have fresh: "Some ''lv_foo'' \<notin> set (map name (func_list ?g))"
    by (simp add: generator_init_def load_default_block_strategy_def)
  have nb: "\<not> (\<exists>p \<in> set (blacklist_func_patterns ?g).
              \<exists>k \<le> length ''lv_foo''. p (take k ''lv_foo'') (drop k ''lv_foo''))"
    by (auto simp: generator_init_def load_default_block_strategy_def default_block_pattern_def
          take_Cons' split: if_splits)
  have first: "\<forall>nd' \<in> set []. \<forall>fn'. func_node_of nd' = Some fn' \<longrightarrow>
                 node_name fn' \<noteq> Inr (Some ''lv_foo'')"
    by simp
  have sp: "[?n1, ?n2, ?n3] = [] @ ?n1 # [?n2, ?n3]" by simp
  have fn: "func_node_of ?n1 = Some ?n1" and nm: "node_name ?n1 = Inr (Some ''lv_foo'')"
    by simp_all
  from T have "\<forall>pre nd post fn n f.
             [?n1, ?n2, ?n3] = pre @ nd # post
             \<and> (\<forall>e. fst (parse_header ?g pre) \<noteq> Inl e)
             \<and> func_node_of nd = Some fn \<and> node_name fn = Inr (Some n)
             \<and> (\<forall>nd' \<in> set pre. \<forall>fn'. func_node_of nd' = Some fn' \<longrightarrow>
                    node_name fn' \<noteq> Inr (Some n))
             \<and> Some n \<notin> set (map name (func_list ?g))
             \<and> \<not> (\<exists>p \<in> set (blacklist_func_patterns ?g).
                      \<exists>k \<le> length n. p (take k n) (drop k n))
             \<and> c_decl_to_c_obj fn = Inr f
             \<longrightarrow> f \<in> set (func_list (snd (parse_header ?g [?n1, ?n2, ?n3])))
                 \<and> (\<forall>f' \<in> set (func_list (snd (parse_header ?g [?n1, ?n2, ?n3]))).
                       name f' = Some n \<longrightarrow> f' = f)"
    by blast
  then have m: "?f \<in> set (func_list (snd (parse_header ?g [?n1, ?n2, ?n3])))"
    using sp run fn nm first fresh nb conv by blast
  have absent: "Some ''lv_log'' \<notin> set (map name (func_list (snd (parse_header ?g [?n1, ?n2, ?n3]))))"
    unfolding e by simp
  show ?thesis using h e m absent by (simp only: simp_thms)
qed

text \<open>
  When the first-seen declaration of \<open>lv_foo\<close> is variadic, it is dropped and the name
  stays free: the second declaration, returning \<open>void\<close>, is the one collected.
\<close>

theorem variadic_first_declaration_counterexample:
  "func_list (snd (parse_header (generator_init [] [])
        [Decl (Some ''lv_foo'') [] [] [] []
           (FuncDecl (Some [Decl (Some ''a'') [] [] [] [] (TypeDecl (IdentifierType [''int''])),
                            EllipsisParam])
                     (TypeDecl (IdentifierType [''int'']))),
         Decl (Some ''lv_foo'') [] [] [] []
           (FuncDecl (Some [Typename None [] (TypeDecl (IdentifierType [''void'']))])
                     (TypeDecl (IdentifierType [''void''])))]))
     = [C_func_obj_decl (Some ''lv_foo'') [] [] [] ''void'' 0 0 [] ''void''
          [C_obj_decl None [] [] [] ''void'' 0 0]]"
  by (simp add: parse_header_def add_lvgl_func_def generator_init_def
        load_default_block_strategy_def default_block_pattern_def re_match_def
        get_nesting_type_def c_obj_decl_init_def c_func_obj_decl_init_def parse_error_message_def)

section \<open>Properties of the version scan\<close>

lemma scan_line_within_limit:
  assumes "within_limit ''LVGL_VERSION_MAJOR'' l"
      and "within_limit ''LVGL_VERSION_MINOR'' l"
      and "within_limit ''LVGL_VERSION_PATCH'' l"
  shows "scan_line g l =
           (None,
            g\<lparr>lvgl_version_major :=
                 (if lvgl_version_major g = 0 then line_value ''LVGL_VERSION_MAJOR'' l
                  else lvgl_version_major g),
               lvgl_version_minor :=
                 (if lvgl_version_minor g = 0 then line_value ''LVGL_VERSION_MINOR'' l
                  else lvgl_version_minor g),
               lvgl_version_patch :=
                 (if lvgl_version_patch g = 0 then line_value ''LVGL_VERSION_PATCH'' l
                  else lvgl_version_patch g)\<rparr>)"
  using assms
  by (simp add: scan_line_def line_value_def within_limit_def py_int_def Let_def
           split: option.splits)

lemma first_nonzero_Nil: "first_nonzero m [] = 0"
  by (simp add: first_nonzero_def)

lemma first_nonzero_Cons:
  "first_nonzero m (l # ls) = (if line_value m l \<noteq> 0 then line_value m l else first_nonzero m ls)"
  by (simp add: first_nonzero_def)

lemma scan_lines_within_limit:
  assumes "[] \<notin> set ls"
      and "\<forall>l \<in> set ls. within_limit ''LVGL_VERSION_MAJOR'' l
             \<and> within_limit ''LVGL_VERSION_MINOR'' l \<and> within_limit ''LVGL_VERSION_PATCH'' l"
  shows "scan_lines g ls =
           (None,
            g\<lparr>lvgl_version_major :=
                 (if lvgl_version_major g = 0 then first_nonzero ''LVGL_VERSION_MAJOR'' ls
                  else lvgl_version_major g),
               lvgl_version_minor :=
                 (if lvgl_version_minor g = 0 then first_nonzero ''LVGL_VERSION_MINOR'' ls
                  else lvgl_version_minor g),
               lvgl_version_patch :=
                 (if lvgl_version_patch g = 0 then first_nonzero ''LVGL_VERSION_PATCH'' ls
                  else lvgl_version_patch g)\<rparr>)"
  using assms
proof (induction ls arbitrary: g)
  case Nil
  then show ?case by (simp add: first_nonzero_Nil)
next
  case (Cons l ls)
  have ne: "l \<noteq> []" and rest: "[] \<notin> set ls" using Cons.prems(1) by auto
  have w: "within_limit ''LVGL_VERSION_MAJOR'' l" "within_limit ''LVGL_VERSION_MINOR'' l"
          "within_limit ''LVGL_VERSION_PATCH'' l"
    using Cons.prems(2) by simp_all
  have wr: "\<forall>l \<in> set ls. within_limit ''LVGL_VERSION_MAJOR'' l
             \<and> within_limit ''LVGL_VERSION_MINOR'' l \<and> within_limit ''LVGL_VERSION_PATCH'' l"
    using Cons.prems(2) by simp
  show ?case
    using ne
    by (simp add: scan_line_within_limit [OF w] Cons.IH [OF rest wr] first_nonzero_Cons)
qed

lemma get_lvgl_version_within_limit:
  assumes "[] \<notin> set ls"
      and "\<forall>l \<in> set ls. within_limit ''LVGL_VERSION_MAJOR'' l
             \<and> within_limit ''LVGL_VERSION_MINOR'' l \<and> within_limit ''LVGL_VERSION_PATCH'' l"
  shows "get_lvgl_version g ls =
           (Inr [first_nonzero ''LVGL_VERSION_MAJOR'' ls,
                 first_nonzero ''LVGL_VERSION_MINOR'' ls,
                 first_nonzero ''LVGL_VERSION_PATCH'' ls],
            g\<lparr>lvgl_version_major := first_nonzero ''LVGL_VERSION_MAJOR'' ls,
               lvgl_version_minor := first_nonzero ''LVGL_VERSION_MINOR'' ls,
               lvgl_version_patch := first_nonzero ''LVGL_VERSION_PATCH'' ls\<rparr>)"
  by (simp add: get_lvgl_version_def Let_def scan_lines_within_limit [OF assms])

lemma first_nonzero_cases:
  "(first_nonzero m ls = 0 \<and> (\<forall>l \<in> set ls. line_value m l = 0))
   \<or> (\<exists>l \<in> set ls. line_value m l \<noteq> 0 \<and> first_nonzero m ls = line_value m l)"
  by (induction ls) (auto simp: first_nonzero_Cons first_nonzero_def)

lemma first_nonzero_set:
  assumes "set ls' = set ls"
      and "\<forall>a \<in> set ls. \<forall>b \<in> set ls.
             line_value m a \<noteq> 0 \<and> line_value m b \<noteq> 0 \<longrightarrow> line_value m a = line_value m b"
  shows "first_nonzero m ls' = first_nonzero m ls"
  using first_nonzero_cases [of m ls] first_nonzero_cases [of m ls'] assms
  by (metis)

text \<open>
  Claim C8, amended. For a file whose lines are non-empty (as \<open>readline\<close> returns them)
  and on which every number that one of the three patterns captures has at most 4300 digits,
  \<open>get_lvgl_version\<close> returns the three fields and leaves them set in the generator,
  whose other attributes are unchanged: each field is the value of the first line that gives
  it a nonzero value, and \<open>0\<close> when no line does. Hence the result does not depend on the
  order of the lines when, for each macro, the lines that give a nonzero value agree on it (as
  with one \<open>#define\<close> per macro): any rearrangement of the lines resolves to the same
  triple and the same generator, and to the same triple from any generator state.
\<close>

theorem version_scan_order_independent:
  assumes "[] \<notin> set ls"
      and "\<forall>l \<in> set ls. within_limit ''LVGL_VERSION_MAJOR'' l
             \<and> within_limit ''LVGL_VERSION_MINOR'' l \<and> within_limit ''LVGL_VERSION_PATCH'' l"
  shows "get_lvgl_version g ls =
           (Inr [first_nonzero ''LVGL_VERSION_MAJOR'' ls,
                 first_nonzero ''LVGL_VERSION_MINOR'' ls,
                 first_nonzero ''LVGL_VERSION_PATCH'' ls],
            g\<lparr>lvgl_version_major := first_nonzero ''LVGL_VERSION_MAJOR'' ls,
               lvgl_version_minor := first_nonzero ''LVGL_VERSION_MINOR'' ls,
               lvgl_version_patch := first_nonzero ''LVGL_VERSION_PATCH'' ls\<rparr>)
       \<and> (\<forall>ls'. mset ls' = mset ls
             \<and> (\<forall>m \<in> {''LVGL_VERSION_MAJOR'', ''LVGL_VERSION_MINOR'', ''LVGL_VERSION_PATCH''}.
                  \<forall>a \<in> set ls. \<forall>b \<in> set ls.
                    line_value m a \<noteq> 0 \<and> line_value m b \<noteq> 0 \<longrightarrow> line_value m a = line_value m b)
             \<longrightarrow> get_lvgl_version g ls' = get_lvgl_version g ls
                 \<and> fst (get_lvgl_version g' ls') = fst (get_lvgl_version g ls))"
proof (intro conjI allI impI)
  show "get_lvgl_version g ls =
           (Inr [first_nonzero ''LVGL_VERSION_MAJOR'' ls,
                 first_nonzero ''LVGL_VERSION_MINOR'' ls,
                 first_nonzero ''LVGL_VERSION_PATCH'' ls],
            g\<lparr>lvgl_version_major := first_nonzero ''LVGL_VERSION_MAJOR'' ls,
               lvgl_version_minor := first_nonzero ''LVGL_VERSION_MINOR'' ls,
               lvgl_version_patch := first_nonzero ''LVGL_VERSION_PATCH'' ls\<rparr>)"
    using assms by (rule get_lvgl_version_within_limit)
next
  fix ls'
  assume a: "mset ls' = mset ls
             \<and> (\<forall>m \<in> {''LVGL_VERSION_MAJOR'', ''LVGL_VERSION_MINOR'', ''LVGL_VERSION_PATCH''}.
                  \<forall>a \<in> set ls. \<forall>b \<in> set ls.
                    line_value m a \<noteq> 0 \<and> line_value m b \<noteq> 0 \<longrightarrow> line_value m a = line_value m b)"
  then have s: "set ls' = set ls" by (metis mset_eq_setD)
  have ne: "[] \<notin> set ls'" using assms(1) s by simp
  have wl: "\<forall>l \<in> set ls'. within_limit ''LVGL_VERSION_MAJOR'' l
             \<and> within_limit ''LVGL_VERSION_MINOR'' l \<and> within_limit ''LVGL_VERSION_PATCH'' l"
    using assms(2) s by simp
  have u: "\<And>m. m \<in> {''LVGL_VERSION_MAJOR'', ''LVGL_VERSION_MINOR'', ''LVGL_VERSION_PATCH''} \<Longrightarrow>
            first_nonzero m ls' = first_nonzero m ls"
    using a s by (intro first_nonzero_set) blast+
  show "get_lvgl_version g ls' = get_lvgl_version g ls"
    using u
    by (simp add: get_lvgl_version_within_limit [OF assms] get_lvgl_version_within_limit [OF ne wl])
  show "fst (get_lvgl_version g' ls') = fst (get_lvgl_version g ls)"
    using u
    by (simp add: get_lvgl_version_within_limit [OF assms] get_lvgl_version_within_limit [OF ne wl])
qed

text \<open>
  The three macros in the order PATCH, MAJOR, MINOR with the values 1, 9, 2 resolve to
  \<open>[9, 2, 1]\<close>, as they do in the order MAJOR, MINOR, PATCH.
\<close>

theorem version_scan_order_independent_witness:
  "[] \<notin> set [''#define LVGL_VERSION_PATCH 1\<newline>'',
               ''#define LVGL_VERSION_MAJOR 9\<newline>'',
               ''#define LVGL_VERSION_MINOR 2\<newline>'']
   \<and> get_lvgl_version (generator_init [] [])
          [''#define LVGL_VERSION_PATCH 1\<newline>'',
           ''#define LVGL_VERSION_MAJOR 9\<newline>'',
           ''#define LVGL_VERSION_MINOR 2\<newline>'']
       = (Inr [9, 2, 1],
          (generator_init [] [])
            \<lparr>lvgl_version_major := 9, lvgl_version_minor := 2, lvgl_version_patch := 1\<rparr>)
   \<and> get_lvgl_version (generator_init [] [])
          [''#define LVGL_VERSION_MAJOR 9\<newline>'',
           ''#define LVGL_VERSION_MINOR 2\<newline>'',
           ''#define LVGL_VERSION_PATCH 1\<newline>'']
       = (Inr [9, 2, 1],
          (generator_init [] [])
            \<lparr>lvgl_version_major := 9, lvgl_version_minor := 2, lvgl_version_patch := 1\<rparr>)"
proof -
  let ?p = "''#define LVGL_VERSION_PATCH 1\<newline>''"
  let ?j = "''#define LVGL_VERSION_MAJOR 9\<newline>''"
  let ?n = "''#define LVGL_VERSION_MINOR 2\<newline>''"
  let ?g = "generator_init [] []"
  have h: "[] \<notin> set [?p, ?j, ?n]" by simp
  have v: "line_value ''LVGL_VERSION_MAJOR'' ?p = 0" "line_value ''LVGL_VERSION_MAJOR'' ?j = 9"
          "line_value ''LVGL_VERSION_MAJOR'' ?n = 0"
          "line_value ''LVGL_VERSION_MINOR'' ?p = 0" "line_value ''LVGL_VERSION_MINOR'' ?j = 0"
          "line_value ''LVGL_VERSION_MINOR'' ?n = 2"
          "line_value ''LVGL_VERSION_PATCH'' ?p = 1" "line_value ''LVGL_VERSION_PATCH'' ?j = 0"
          "line_value ''LVGL_VERSION_PATCH'' ?n = 0"
    by (simp_all add: line_value_def strip_line_def replace_def match_define_def strip_prefix_def
          skip_blanks_def is_digit_def digits_value_def digit_value_def)
  have w: "\<forall>l \<in> set [?p, ?j, ?n]. within_limit ''LVGL_VERSION_MAJOR'' l
             \<and> within_limit ''LVGL_VERSION_MINOR'' l \<and> within_limit ''LVGL_VERSION_PATCH'' l"
    by (simp add: within_limit_def strip_line_def replace_def match_define_def strip_prefix_def
          skip_blanks_def is_digit_def int_max_str_digits_def)
  have f: "first_nonzero ''LVGL_VERSION_MAJOR'' [?p, ?j, ?n] = 9"
          "first_nonzero ''LVGL_VERSION_MINOR'' [?p, ?j, ?n] = 2"
          "first_nonzero ''LVGL_VERSION_PATCH'' [?p, ?j, ?n] = 1"
    by (simp_all add: first_nonzero_def v)
  have m: "mset [?j, ?n, ?p] = mset [?p, ?j, ?n]" by (simp only: mset.simps add_mset_commute)
  have u: "\<forall>m \<in> {''LVGL_VERSION_MAJOR'', ''LVGL_VERSION_MINOR'', ''LVGL_VERSION_PATCH''}.
             \<forall>a \<in> set [?p, ?j, ?n]. \<forall>b \<in> set [?p, ?j, ?n].
               line_value m a \<noteq> 0 \<and> line_value m b \<noteq> 0 \<longrightarrow> line_value m a = line_value m b"
    by (simp only: v list.set ball_simps Set.ball_simps insert_iff empty_iff) simp
  from version_scan_order_independent [OF h w, of ?g ?g]
  have a: "get_lvgl_version ?g [?p, ?j, ?n]
             = (Inr [9, 2, 1],
                ?g\<lparr>lvgl_version_major := 9, lvgl_version_minor := 2, lvgl_version_patch := 1\<rparr>)"
    and b: "get_lvgl_version ?g [?j, ?n, ?p] = get_lvgl_version ?g [?p, ?j, ?n]"
    using f m u by (simp only:, blast)
  show ?thesis using h a b by simp
qed

lemma replace_loop_single:
  "replace_loop s [c] [] = filter (\<lambda>x. x \<noteq> c) s"
  by (induction s) auto

lemma strip_line_filter:
  "strip_line s = filter (\<lambda>x. x \<noteq> CHR 0x0A) (filter (\<lambda>x. x \<noteq> CHR 0x0D) s)"
  by (simp add: strip_line_def replace_def replace_loop_single)

text \<open>
  With a major version of 4301 digits between the lines for PATCH and MINOR, \<open>int\<close>
  raises \<open>ValueError\<close> and the scan returns no triple.
\<close>

theorem version_scan_too_many_digits_counterexample:
  "fst (get_lvgl_version (generator_init [] [])
          [''#define LVGL_VERSION_PATCH 1\<newline>'',
           ''#define LVGL_VERSION_MAJOR '' @ replicate 4301 CHR ''9'' @ ''\<newline>'',
           ''#define LVGL_VERSION_MINOR 2\<newline>''])
     = Inl PyValueError
   \<and> fst (get_lvgl_version (generator_init [] [])
          [''#define LVGL_VERSION_PATCH 1\<newline>'',
           ''#define LVGL_VERSION_MAJOR '' @ replicate 4301 CHR ''9'' @ ''\<newline>'',
           ''#define LVGL_VERSION_MINOR 2\<newline>''])
     \<noteq> Inr [digits_value (replicate 4301 CHR ''9''), 2, 1]"
proof -
  have s: "strip_line (''#define LVGL_VERSION_MAJOR '' @ replicate 4301 CHR ''9'' @ ''\<newline>'')
             = ''#define LVGL_VERSION_MAJOR '' @ replicate 4301 CHR ''9''"
    by (simp add: strip_line_filter)
  have m: "match_define ''LVGL_VERSION_MAJOR'' (''#define LVGL_VERSION_MAJOR '' @ replicate 4301 CHR ''9'')
             = Some (replicate 4301 CHR ''9'')"
    by (simp add: match_define_def strip_prefix_def skip_blanks_def is_digit_def)
  have i: "py_int (replicate 4301 CHR ''9'') = Inl PyValueError"
    by (simp add: py_int_def int_max_str_digits_def)
  have l1: "scan_line ((generator_init [] [])
              \<lparr>lvgl_version_major := 0, lvgl_version_minor := 0, lvgl_version_patch := 0\<rparr>)
              ''#define LVGL_VERSION_PATCH 1\<newline>''
            = (None, (generator_init [] [])
              \<lparr>lvgl_version_major := 0, lvgl_version_minor := 0, lvgl_version_patch := 1\<rparr>)"
    by (simp add: scan_line_def strip_line_filter match_define_def strip_prefix_def skip_blanks_def
          is_digit_def py_int_def int_max_str_digits_def digits_value_def digit_value_def
          generator_init_def load_default_block_strategy_def)
  have l2: "fst (scan_line ((generator_init [] [])
              \<lparr>lvgl_version_major := 0, lvgl_version_minor := 0, lvgl_version_patch := 1\<rparr>)
              (''#define LVGL_VERSION_MAJOR '' @ replicate 4301 CHR ''9'' @ ''\<newline>''))
            = Some PyValueError"
    unfolding scan_line_def s by (simp add: m [simplified] i Let_def)
  have r: "fst (get_lvgl_version (generator_init [] [])
          [''#define LVGL_VERSION_PATCH 1\<newline>'',
           ''#define LVGL_VERSION_MAJOR '' @ replicate 4301 CHR ''9'' @ ''\<newline>'',
           ''#define LVGL_VERSION_MINOR 2\<newline>''])
     = Inl PyValueError"
    unfolding get_lvgl_version_def Let_def
    using l1 l2
    by (simp add: split_beta split: option.splits prod.splits)
  show ?thesis unfolding r by simp
qed

end
